theory Spec2Isabelle
  imports Complex_Main "HOL-Library.Sublist"
begin

section \<open>Client-built expression trees\<close>

text \<open>
  The notebooks never compute on rasters themselves. Every \<^verbatim>\<open>ee.X(...)\<close> constructor and
  every method call on an Earth Engine object only builds a node of an expression tree on
  the client. A node records the name of the function as it is written in the notebook
  and its arguments, the receiver of a method call first. A keyword argument
  (\<^verbatim>\<open>**{'image': image, ...}\<close> or \<^verbatim>\<open>name=value\<close>) is a \<open>Kw\<close> node; a Python dictionary
  literal is a \<open>Dict\<close> of \<open>Kw\<close> entries. The number \<open>Dec m e\<close> is the decimal literal
  \<open>m * 10^e\<close>.
\<close>

datatype ee =
    Num int
  | Dec int int
  | Str string
  | Bool bool
  | Lst "ee list"
  | Dict "ee list"
  | Kw string ee
  | Var string
  | Lam string ee
  | Call string "ee list"

text \<open>Number of call nodes with a given function name in a tree.\<close>

fun count_op :: "string \<Rightarrow> ee \<Rightarrow> nat" where
  "count_op f (Num n) = 0"
| "count_op f (Dec m e) = 0"
| "count_op f (Str s) = 0"
| "count_op f (Bool b) = 0"
| "count_op f (Lst xs) = sum_list (map (count_op f) xs)"
| "count_op f (Dict xs) = sum_list (map (count_op f) xs)"
| "count_op f (Kw k v) = count_op f v"
| "count_op f (Var x) = 0"
| "count_op f (Lam x b) = count_op f b"
| "count_op f (Call g xs) = (if g = f then 1 else 0) + sum_list (map (count_op f) xs)"

section \<open>Pointwise semantics of the image operators\<close>

text \<open>
  A pixel of an image is either masked (\<open>None\<close>) or carries a value. The operators below
  are the per-pixel operators the notebooks apply: comparisons yield 1 or 0, \<open>Or\<close> is 1
  where either input is non-zero, \<open>multiply\<close> and \<open>add\<close> are arithmetic, \<open>selfMask\<close>
  masks a pixel whose value is zero, and \<open>rename\<close> changes the band name only. A binary
  operator gives a masked pixel where either input is masked.
\<close>

type_synonym pixel = "real option"

definition truth :: "bool \<Rightarrow> real" where
  "truth b = (if b then 1 else 0)"

fun binop :: "string \<Rightarrow> real \<Rightarrow> real \<Rightarrow> real option" where
  "binop f a b =
    (if f = ''eq'' then Some (truth (a = b))
     else if f = ''gt'' then Some (truth (a > b))
     else if f = ''gte'' then Some (truth (a \<ge> b))
     else if f = ''Or'' then Some (truth (a \<noteq> 0 \<or> b \<noteq> 0))
     else if f = ''multiply'' then Some (a * b)
     else if f = ''add'' then Some (a + b)
     else None)"

fun apply_op :: "string \<Rightarrow> pixel list \<Rightarrow> pixel" where
  "apply_op f [Some a] =
    (if f = ''selfMask'' then (if a \<noteq> 0 then Some a else None) else None)"
| "apply_op f [Some a, Some b] = binop f a b"
| "apply_op f [Some a, None] = (if f = ''rename'' then Some a else None)"
| "apply_op f ps = None"

text \<open>
  \<open>px base v e\<close> is the pixel of the image \<open>e\<close> at a place where the image \<open>base\<close> has the
  pixel \<open>v\<close>. A number is a constant image; a string argument (a band name) has no pixel.
\<close>

fun px :: "ee \<Rightarrow> pixel \<Rightarrow> ee \<Rightarrow> pixel" where
  "px base v (Num n) = Some (real_of_int n)"
| "px base v (Dec m e) = Some (real_of_int m * 10 powr (real_of_int e))"
| "px base v (Call f xs) =
    (if Call f xs = base then v else apply_op f (map (px base v) xs))"
| "px base v (Str s) = None"
| "px base v (Bool b) = None"
| "px base v (Lst xs) = None"
| "px base v (Dict xs) = None"
| "px base v (Kw k e) = None"
| "px base v (Var x) = None"
| "px base v (Lam x b) = None"

section \<open>Python exceptions\<close>

text \<open>
  The exceptions a call of the notebooks can raise, with the two class tests of the
  \<^verbatim>\<open>except\<close> clauses: \<^verbatim>\<open>ModuleNotFoundError\<close> is a subclass of
  \<^verbatim>\<open>ImportError\<close>; \<^verbatim>\<open>KeyboardInterrupt\<close> and \<^verbatim>\<open>SystemExit\<close> derive from
  \<^verbatim>\<open>BaseException\<close> and not from \<^verbatim>\<open>Exception\<close>.
\<close>

datatype exn =
    ImportError
  | ModuleNotFoundError
  | CalledProcessError
  | EEException
  | OtherException
  | KeyboardInterrupt
  | SystemExit

fun is_ImportError :: "exn \<Rightarrow> bool" where
  "is_ImportError ImportError = True"
| "is_ImportError ModuleNotFoundError = True"
| "is_ImportError e = False"

fun is_Exception :: "exn \<Rightarrow> bool" where
  "is_Exception KeyboardInterrupt = False"
| "is_Exception SystemExit = False"
| "is_Exception e = True"

section \<open>Statements, the client state and the outside world\<close>

text \<open>
  What a cell does is a sequence of statements, each of one of these kinds. \<open>Build e\<close> is an
  assignment that constructs the expression tree \<open>e\<close> on the client; \<open>Print\<close> writes to the
  cell's output, where \<open>Info e\<close> stands for the value that \<^verbatim>\<open>e.getInfo()\<close> returned.
  \<open>GetInfo e\<close> is \<^verbatim>\<open>e.getInfo()\<close>, \<open>AddLayer e vis name\<close> is \<^verbatim>\<open>Map.addLayer(e, vis, name)\<close>,
  \<open>CheckCall\<close> is \<^verbatim>\<open>subprocess.check_call\<close>, \<open>NewMap\<close> is \<^verbatim>\<open>folium.Map\<close>, and
  \<open>Render\<close> is the trailing expression \<^verbatim>\<open>Map\<close> that displays the map widget.
\<close>

datatype pitem = Text string | Info ee

datatype event =
    Import string
  | Print "pitem list"
  | CheckCall "string list"
  | EEInitialize
  | EEAuthenticate
  | NewMap "ee list"
  | SetOptions string
  | SetCenter ee ee ee
  | CenterObject ee ee
  | Build ee
  | GetInfo ee
  | AddLayer ee ee "string option"
  | SetControlVisibility "ee list"
  | Render

text \<open>
  The map widget is the one mutable object of the client: a list of layers. A new folium
  map starts with the default OpenStreetMap basemap, \<^verbatim>\<open>setOptions\<close> adds a basemap and
  \<^verbatim>\<open>addLayer\<close> adds the tile layer obtained for an expression.
\<close>

datatype layer = Basemap string | TileLayer ee ee "string option"

fun effect :: "event \<Rightarrow> layer list \<Rightarrow> layer list" where
  "effect (NewMap args) ls = [Basemap ''OpenStreetMap'']"
| "effect (SetOptions m) ls = ls @ [Basemap m]"
| "effect (AddLayer e vis name) ls = ls @ [TileLayer e vis name]"
| "effect ev ls = ls"

record client =
  trace :: "event list"
  Map :: "layer list"

text \<open>
  Printing is taken not to fail. Every other statement calls into a library or the remote
  service, and the world decides, from the statements executed so far, whether the call
  returns (\<open>None\<close>) or raises.
\<close>

fun fallible :: "event \<Rightarrow> bool" where
  "fallible (Print xs) = False"
| "fallible ev = True"

type_synonym world = "event list \<Rightarrow> event \<Rightarrow> exn option"

type_synonym prog = "world \<Rightarrow> client \<Rightarrow> exn option \<times> client"

definition raises :: "world \<Rightarrow> event list \<Rightarrow> event \<Rightarrow> exn option" where
  "raises w h ev = (if fallible ev then w h ev else None)"

definition attempt :: "event \<Rightarrow> prog" where
  "attempt ev w s =
    (case raises w (trace s) ev of
       None \<Rightarrow> (None, \<lparr>trace = trace s @ [ev], Map = effect ev (Map s)\<rparr>)
     | Some e \<Rightarrow> (Some e, \<lparr>trace = trace s @ [ev], Map = Map s\<rparr>))"

text \<open>Straight-line code: the statements in order, up to the first one that raises.\<close>

fun run :: "event list \<Rightarrow> prog" where
  "run [] w s = (None, s)"
| "run (ev # evs) w s =
    (case attempt ev w s of
       (None, s') \<Rightarrow> run evs w s'
     | (Some e, s') \<Rightarrow> (Some e, s'))"

fun block :: "prog list \<Rightarrow> prog" where
  "block [] w s = (None, s)"
| "block (p # ps) w s =
    (case p w s of
       (None, s') \<Rightarrow> block ps w s'
     | (Some e, s') \<Rightarrow> (Some e, s'))"

text \<open>\<^verbatim>\<open>try: body except C: handler\<close>, where \<open>handles\<close> is the class test of \<^verbatim>\<open>C\<close>.\<close>

definition try_except :: "prog \<Rightarrow> (exn \<Rightarrow> bool) \<Rightarrow> prog \<Rightarrow> prog" where
  "try_except body handles handler w s =
    (case body w s of
       (None, s') \<Rightarrow> (None, s')
     | (Some e, s') \<Rightarrow> if handles e then handler w s' else (Some e, s'))"

definition start :: client where
  "start = \<lparr>trace = [], Map = []\<rparr>"

text \<open>The world in which every call returns.\<close>

definition ok :: world where
  "ok h ev = None"

text \<open>The statements a program executes from a state, and those of a run from the start.\<close>

definition events :: "prog \<Rightarrow> world \<Rightarrow> client \<Rightarrow> event list" where
  "events p w s = drop (length (trace s)) (trace (snd (p w s)))"

text \<open>
  Modelled from the spec: which statements block on the remote service. The client
  libraries (earthengine-api and geehydro) are not part of the repository. The spec names
  the submission of an expression with the retrieval of a tile URL or of a scalar or
  metadata result, and the session initialization against the remote service. The
  recorded outputs of the notebooks show the replies: every printed \<^verbatim>\<open>getInfo\<close>
  result, one tile address for every \<^verbatim>\<open>Map.addLayer\<close>, and in the notebook on image
  metadata the bounds of the scene that \<^verbatim>\<open>Map.centerObject\<close> fitted the map to, which
  occur nowhere in the code. A submission is a statement that sends an expression and
  waits for the result; a session call is \<^verbatim>\<open>ee.Initialize()\<close> or
  \<^verbatim>\<open>ee.Authenticate()\<close>. Each such statement is counted once.
\<close>

fun is_submission :: "event \<Rightarrow> bool" where
  "is_submission (GetInfo e) = True"
| "is_submission (AddLayer e vis name) = True"
| "is_submission (CenterObject e z) = True"
| "is_submission ev = False"

fun is_session_call :: "event \<Rightarrow> bool" where
  "is_session_call EEInitialize = True"
| "is_session_call EEAuthenticate = True"
| "is_session_call ev = False"

definition submissions :: "event list \<Rightarrow> nat" where
  "submissions evs = length (filter is_submission evs)"

definition remote_calls :: "event list \<Rightarrow> nat" where
  "remote_calls evs = length (filter (\<lambda>ev. is_submission ev \<or> is_session_call ev) evs)"

text \<open>Python's \<^verbatim>\<open>str\<close> on a natural number.\<close>

fun str :: "nat \<Rightarrow> string" where
  "str n = (if n < 10 then [''0123456789'' ! n] else str (n div 10) @ [''0123456789'' ! (n mod 10)])"

declare str.simps [simp del]

section \<open>The cells every notebook shares\<close>

text \<open>
  \<^verbatim>\<open>
  import subprocess
  try:
      import geehydro
  except ImportError:
      print('geehydro package not installed. Installing ...')
      subprocess.check_call(["python", '-m', 'pip', 'install', 'geehydro'])
  import ee
  import folium
  import geehydro
  try:
      ee.Initialize()
  except Exception as e:
      ee.Authenticate()
      ee.Initialize()
  \<close>
\<close>

definition pip_install :: event where
  "pip_install = CheckCall [''python'', ''-m'', ''pip'', ''install'', ''geehydro'']"

definition install_if_missing :: prog where
  "install_if_missing =
     try_except (run [Import ''geehydro'']) is_ImportError
       (run [Print [Text ''geehydro package not installed. Installing ...''], pip_install])"

definition init_session :: prog where
  "init_session =
     try_except (run [EEInitialize]) is_Exception (run [EEAuthenticate, EEInitialize])"

definition bootstrap_cell :: prog where
  "bootstrap_cell = block
     [run [Import ''subprocess''],
      install_if_missing,
      run [Import ''ee'', Import ''folium'', Import ''geehydro''],
      init_session]"

text \<open>The statements of the bootstrap cell in the order of the source.\<close>

definition bootstrap_stmts :: "event list" where
  "bootstrap_stmts =
     [Import ''subprocess'', Import ''geehydro'',
      Print [Text ''geehydro package not installed. Installing ...''], pip_install,
      Import ''ee'', Import ''folium'', Import ''geehydro'',
      EEInitialize, EEAuthenticate, EEInitialize]"

definition basemap_cell :: "event list" where
  "basemap_cell =
     [NewMap [Kw ''location'' (Lst [Num 40, Num (-100)]), Kw ''zoom_start'' (Num 4)],
      SetOptions ''HYBRID'']"

definition display_cell :: "event list" where
  "display_cell =
     [SetControlVisibility
        [Kw ''layerControl'' (Bool True), Kw ''fullscreenControl'' (Bool True),
         Kw ''latLngPopup'' (Bool True)],
      Render]"

text \<open>
  A notebook is its bootstrap cell followed by straight-line cells; running it executes
  the cells in order and stops at the first exception that leaves a cell.
\<close>

definition notebook :: "event list list \<Rightarrow> prog" where
  "notebook cells = block (bootstrap_cell # map run cells)"

section \<open>Notebook \<^verbatim>\<open>Image/13_cumulative_cost_mapping.ipynb\<close>\<close>

definition geometry :: ee where
  "geometry = Call ''ee.Geometry.Rectangle''
     [Lst [Dec 185229 (-4), Dec 43491 (-4), Dec 185833 (-4), Dec 44066 (-4)]]"

definition sources0 :: ee where
  "sources0 = Call ''paint'' [Call ''toByte'' [Call ''ee.Image'' []], geometry, Num 1]"

definition sources :: ee where
  "sources = Call ''updateMask'' [sources0, sources0]"

definition cover :: ee where
  "cover = Call ''select'' [Call ''ee.Image'' [Str ''ESA/GLOBCOVER_L4_200901_200912_V2_3''], Num 0]"

definition eq_ee :: "ee \<Rightarrow> int \<Rightarrow> ee" where
  "eq_ee img n = Call ''eq'' [img, Num n]"

definition Or_ee :: "ee \<Rightarrow> ee \<Rightarrow> ee" where
  "Or_ee a b = Call ''Or'' [a, b]"

definition multiply_ee :: "ee \<Rightarrow> ee \<Rightarrow> ee" where
  "multiply_ee a b = Call ''multiply'' [a, b]"

definition add_ee :: "ee \<Rightarrow> ee \<Rightarrow> ee" where
  "add_ee a b = Call ''add'' [a, b]"

text \<open>The three operands of the sum, as the method chains of the notebook build them.\<close>

definition cost1 :: ee where
  "cost1 = multiply_ee
     (Or_ee (Or_ee (Or_ee (eq_ee cover 60) (eq_ee cover 80)) (eq_ee cover 110)) (eq_ee cover 140))
     (Num 1)"

definition cost2 :: ee where
  "cost2 = multiply_ee
     (Or_ee (Or_ee (Or_ee (Or_ee (eq_ee cover 40) (eq_ee cover 90)) (eq_ee cover 120))
        (eq_ee cover 130)) (eq_ee cover 170))
     (Num 2)"

definition cost3 :: ee where
  "cost3 = multiply_ee
     (Or_ee (Or_ee (Or_ee (eq_ee cover 50) (eq_ee cover 70)) (eq_ee cover 150)) (eq_ee cover 160))
     (Num 3)"

definition cost :: ee where
  "cost = add_ee cost1 (add_ee cost2 cost3)"

definition cumulativeCost :: ee where
  "cumulativeCost = Call ''cumulativeCost''
     [cost, Kw ''source'' sources, Kw ''maxDistance'' (Num (80 * 1000))]"

definition classes1 :: "real set" where "classes1 = {60, 80, 110, 140}"
definition classes2 :: "real set" where "classes2 = {40, 90, 120, 130, 170}"
definition classes3 :: "real set" where "classes3 = {50, 70, 150, 160}"

definition nb13_cell3 :: "event list" where
  "nb13_cell3 =
     [Build geometry, Build sources0, Build sources, Build cover, Build cost,
      Build cumulativeCost,
      SetCenter (Dec 1871 (-2)) (Dec 42 (-1)) (Num 9),
      AddLayer cover (Dict []) (Some ''Globcover''),
      AddLayer cumulativeCost (Dict [Kw ''min'' (Num 0), Kw ''max'' (Dec 5 4)])
        (Some ''accumulated cost''),
      AddLayer geometry (Dict [Kw ''color'' (Str ''FF0000'')]) (Some ''source geometry'')]"

definition nb13 :: "event list list" where
  "nb13 = [basemap_cell, nb13_cell3, display_cell]"

section \<open>Notebook \<^verbatim>\<open>Image/03_image_metadata.ipynb\<close>\<close>

definition image_nb03 :: ee where
  "image_nb03 = Call ''ee.Image'' [Str ''LANDSAT/LC8_L1T/LC80440342014077LGN00'']"

definition bandNames :: ee where
  "bandNames = Call ''bandNames'' [image_nb03]"

definition b1proj :: ee where
  "b1proj = Call ''projection'' [Call ''select'' [image_nb03, Str ''B1'']]"

definition b1scale :: ee where
  "b1scale = Call ''nominalScale'' [Call ''projection'' [Call ''select'' [image_nb03, Str ''B1'']]]"

definition b8scale :: ee where
  "b8scale = Call ''nominalScale'' [Call ''projection'' [Call ''select'' [image_nb03, Str ''B8'']]]"

definition properties :: ee where
  "properties = Call ''propertyNames'' [image_nb03]"

definition cloudiness :: ee where
  "cloudiness = Call ''get'' [image_nb03, Str ''CLOUD_COVER'']"

definition date :: ee where
  "date = Call ''ee.Date'' [Call ''get'' [image_nb03, Str ''system:time_start'']]"

definition date2 :: ee where
  "date2 = Call ''format'' [date, Str ''YYYY-MM-dd'']"

text \<open>\<^verbatim>\<open>x = ...; print(label, x.getInfo())\<close>\<close>

definition print_info :: "string \<Rightarrow> ee \<Rightarrow> event list" where
  "print_info label x = [Build x, GetInfo x, Print [Text label, Info x]]"

definition nb03_cell3 :: "event list" where
  "nb03_cell3 =
     [Build image_nb03,
      AddLayer image_nb03 (Dict [Kw ''bands'' (Lst [Str ''B5'', Str ''B4'', Str ''B3''])])
        (Some ''Landsat image''),
      CenterObject image_nb03 (Num 8)]"

definition nb03 :: "event list list" where
  "nb03 =
     [basemap_cell,
      nb03_cell3,
      print_info ''Band names: '' bandNames,
      print_info ''Band 1 projection: '' b1proj,
      print_info ''Band 1 scale: '' b1scale,
      print_info ''Band 8 scale: '' b8scale,
      print_info ''Metadata properties: '' properties,
      print_info ''CLOUD_COVER: '' cloudiness,
      print_info ''Timestamp: '' date,
      print_info ''Timestamp: '' date2,
      display_cell]"

section \<open>Notebook \<^verbatim>\<open>ImageCollection/04_mapping_over_image_collection.ipynb\<close>\<close>

definition addTime :: "ee \<Rightarrow> ee" where
  "addTime img = Call ''addBands'' [img, Call ''metadata'' [img, Str ''system:time_start'']]"

definition path_row :: "string \<Rightarrow> ee" where
  "path_row name =
     Call ''filter''
       [Call ''filter'' [Call ''ee.ImageCollection'' [Str name],
          Call ''ee.Filter.eq'' [Str ''WRS_PATH'', Num 44]],
        Call ''ee.Filter.eq'' [Str ''WRS_ROW'', Num 34]]"

definition collection_toa :: ee where
  "collection_toa = path_row ''LANDSAT/LC08/C01/T1_TOA''"

text \<open>
  \<^verbatim>\<open>collection.map(f)\<close> applies the Python function to a placeholder variable and
  stores the tree it returns as the body of a function node. The named function and the
  lambda of the next cell give the same tree.
\<close>

definition map_ee :: "ee \<Rightarrow> (ee \<Rightarrow> ee) \<Rightarrow> ee" where
  "map_ee coll f = Call ''map'' [coll, Lam ''image'' (f (Var ''image''))]"

definition first :: ee where
  "first = Call ''first'' [map_ee collection_toa addTime]"

definition nb04_cell3 :: "event list" where
  "nb04_cell3 =
     [Build collection_toa, Build first,
      GetInfo (Call ''bandNames'' [first]),
      Print [Info (Call ''bandNames'' [first])]]"

definition nb04_cell4 :: "event list" where
  "nb04_cell4 =
     [Build collection_toa,
      Build (Call ''first''
        [map_ee collection_toa
           (\<lambda>img. Call ''addBands'' [img, Call ''metadata'' [img, Str ''system:time_start'']])]),
      GetInfo (Call ''bandNames'' [first]),
      Print [Info (Call ''bandNames'' [first])]]"

definition conditional :: "ee \<Rightarrow> ee" where
  "conditional img =
     Call ''ee.Algorithms.If''
       [Call ''gt'' [Call ''ee.Number'' [Call ''get'' [img, Str ''SUN_ELEVATION'']], Num 40],
        img, Call ''ee.Image'' [Num 0]]"

text \<open>The call that maps \<open>conditional\<close> over the collection is commented out in the notebook.\<close>

definition nb04_cell5 :: "event list" where
  "nb04_cell5 = [Build collection_toa, Build (path_row ''LANDSAT/LC8_L1T_TOA'')]"

definition calNDVI :: "ee \<Rightarrow> ee" where
  "calNDVI img = Call ''normalizedDifference'' [img, Lst [Str ''B5'', Str ''B4'']]"

definition point_nb04 :: ee where
  "point_nb04 = Call ''ee.Geometry.Point'' [Dec (-8393) (-2), Dec 3585 (-2)]"

definition collection_knox :: ee where
  "collection_knox =
     Call ''limit''
       [Call ''sort''
          [Call ''filterBounds'' [Call ''ee.ImageCollection'' [Str ''LANDSAT/LC8_L1T_TOA''],
             point_nb04],
           Str ''CLOUD_COVER''],
        Num 3]"

definition ndvi_images :: ee where
  "ndvi_images = map_ee collection_knox calNDVI"

definition vizParams :: ee where
  "vizParams =
     Dict [Kw ''bands'' (Lst [Str ''B5'', Str ''B4'', Str ''B3'']),
           Kw ''min'' (Num 0), Kw ''max'' (Dec 4 (-1))]"

definition landsat :: "nat \<Rightarrow> ee" where
  "landsat i = Call ''ee.Image'' [Call ''get'' [Call ''toList'' [collection_knox, Num 3], Num (int i)]]"

definition ndvi :: "nat \<Rightarrow> ee" where
  "ndvi i = Call ''ee.Image'' [Call ''get'' [Call ''toList'' [ndvi_images, Num 3], Num (int i)]]"

text \<open>The body of \<^verbatim>\<open>for i in range(0, 3)\<close>.\<close>

definition loop_body :: "nat \<Rightarrow> event list" where
  "loop_body i =
     [Build (landsat i), Build (ndvi i),
      AddLayer (landsat i) vizParams (Some (''Landsat image '' @ str (i + 1))),
      AddLayer (ndvi i) (Dict [Kw ''palette'' (Lst [Str ''red'', Str ''green''])])
        (Some (''NDVI image '' @ str (i + 1)))]"

definition nb04_cell6 :: "event list" where
  "nb04_cell6 =
     [Build point_nb04, Build collection_knox, Build ndvi_images]
     @ basemap_cell
     @ [CenterObject point_nb04 (Num 8)]
     @ concat (map loop_body [0..<3])
     @ display_cell"

text \<open>The last cell repeats the previous one with a lambda in place of \<open>calNDVI\<close>.\<close>

definition nb04_cell7 :: "event list" where
  "nb04_cell7 =
     [Build point_nb04, Build collection_knox,
      Build (map_ee collection_knox (\<lambda>img. Call ''normalizedDifference'' [img, Lst [Str ''B5'', Str ''B4'']]))]
     @ basemap_cell
     @ [CenterObject point_nb04 (Num 8)]
     @ concat (map loop_body [0..<3])
     @ display_cell"

definition nb04 :: "event list list" where
  "nb04 = [basemap_cell, nb04_cell3, nb04_cell4, nb04_cell5, nb04_cell6, nb04_cell7]"

section \<open>Notebook \<^verbatim>\<open>Image/09_edge_detection.ipynb\<close>\<close>

definition image_nb09 :: ee where
  "image_nb09 = Call ''select'' [Call ''ee.Image'' [Str ''LANDSAT/LC08/C01/T1/LC08_044034_20140318''], Str ''B8'']"

definition canny :: ee where
  "canny = Call ''ee.Algorithms.CannyEdgeDetector''
     [Kw ''image'' image_nb09, Kw ''threshold'' (Num 10), Kw ''sigma'' (Num 1)]"

definition hough :: ee where
  "hough = Call ''ee.Algorithms.HoughTransform'' [canny, Num 256, Num 600, Num 100]"

definition fat :: ee where
  "fat = Call ''ee.Kernel.gaussian''
     [Kw ''radius'' (Num 3), Kw ''sigma'' (Num 3), Kw ''units'' (Str ''pixels''),
      Kw ''normalize'' (Bool True), Kw ''magnitude'' (Num (-1))]"

definition skinny :: ee where
  "skinny = Call ''ee.Kernel.gaussian''
     [Kw ''radius'' (Num 3), Kw ''sigma'' (Num 1), Kw ''units'' (Str ''pixels''),
      Kw ''normalize'' (Bool True)]"

definition dog :: ee where
  "dog = Call ''add'' [fat, skinny]"

definition zeroXings :: ee where
  "zeroXings = Call ''zeroCrossing'' [Call ''convolve'' [image_nb09, dog]]"

definition nb09_cell3 :: "event list" where
  "nb09_cell3 =
     [Build image_nb09, Build canny,
      SetCenter (Dec (-122054) (-3)) (Dec 377295 (-4)) (Num 10),
      AddLayer canny (Dict []) (Some ''canny'')]"

definition nb09_cell4 :: "event list" where
  "nb09_cell4 = [Build hough, AddLayer hough (Dict []) (Some ''hough'')]"

definition nb09_cell5 :: "event list" where
  "nb09_cell5 =
     [Build image_nb09,
      AddLayer image_nb09 (Dict [Kw ''max'' (Num 12000)]) None,
      Build fat, Build skinny, Build dog, Build zeroXings,
      SetCenter (Dec (-122054) (-3)) (Dec 377295 (-4)) (Num 10),
      AddLayer (Call ''updateMask'' [zeroXings, zeroXings])
        (Dict [Kw ''palette'' (Str ''FF0000'')]) (Some ''zero crossings'')]
     @ display_cell"

definition nb09 :: "event list list" where
  "nb09 = [basemap_cell, nb09_cell3, nb09_cell4, nb09_cell5]"

section \<open>Notebook \<^verbatim>\<open>Image/12_object_based_methods.ipynb\<close>\<close>

definition point_nb12 :: ee where
  "point_nb12 = Call ''ee.Geometry.Point'' [Dec (-1221899) (-4), Dec 375010 (-4)]"

definition aoi :: ee where
  "aoi = Call ''buffer'' [point_nb12, Num 10000]"

definition kelvin :: ee where
  "kelvin =
     Call ''clip''
       [Call ''select'' [Call ''ee.Image'' [Str ''LANDSAT/LC08/C01/T1_TOA/LC08_044034_20140318''],
          Lst [Str ''B10''], Lst [Str ''kelvin'']],
        aoi]"

definition hotspots :: ee where
  "hotspots = Call ''rename'' [Call ''selfMask'' [Call ''gt'' [kelvin, Num 303]], Str ''hotspots'']"

definition objectId :: ee where
  "objectId = Call ''connectedComponents''
     [hotspots, Kw ''connectedness'' (Call ''ee.Kernel.plus'' [Num 1]), Kw ''maxSize'' (Num 128)]"

definition objectSize :: ee where
  "objectSize = Call ''connectedPixelCount''
     [Call ''select'' [objectId, Str ''labels''],
      Kw ''maxSize'' (Num 128), Kw ''eightConnected'' (Bool False)]"

definition pixelArea :: ee where
  "pixelArea = Call ''ee.Image.pixelArea'' []"

definition objectArea :: ee where
  "objectArea = Call ''multiply'' [objectSize, pixelArea]"

definition areaMask :: ee where
  "areaMask = Call ''gte'' [objectArea, Num 10000]"

text \<open>The reassignments \<^verbatim>\<open>objectId = objectId.updateMask(areaMask)\<close> and
  \<^verbatim>\<open>kelvin = kelvin.addBands(...)\<close> get names of their own.\<close>

definition objectId_large :: ee where
  "objectId_large = Call ''updateMask'' [objectId, areaMask]"

definition kelvin_labels :: ee where
  "kelvin_labels = Call ''addBands'' [kelvin, Call ''select'' [objectId_large, Str ''labels'']]"

definition patchTemp :: ee where
  "patchTemp = Call ''reduceConnectedComponents''
     [kelvin_labels, Kw ''reducer'' (Call ''ee.Reducer.mean'' []), Kw ''labelBand'' (Str ''labels'')]"

definition nb12_cell3 :: "event list" where
  "nb12_cell3 =
     [Build point_nb12, Build aoi, Build kelvin,
      SetCenter (Dec (-1221899) (-4)) (Dec 375010 (-4)) (Num 13),
      AddLayer kelvin (Dict [Kw ''min'' (Num 288), Kw ''max'' (Num 305)]) (Some ''Kelvin''),
      Build hotspots,
      AddLayer hotspots (Dict [Kw ''palette'' (Str ''FF0000'')]) (Some ''Hotspots'')]"

definition nb12_cell4 :: "event list" where
  "nb12_cell4 =
     [Build objectId,
      AddLayer (Call ''randomVisualizer'' [objectId]) (Dict []) (Some ''Objects'')]"

definition nb12_cell5 :: "event list" where
  "nb12_cell5 = [Build objectSize, AddLayer objectSize (Dict []) (Some ''Object n pixels'')]"

definition nb12_cell6 :: "event list" where
  "nb12_cell6 =
     [Build pixelArea, Build objectArea,
      AddLayer objectArea (Dict []) (Some ''Object area m^2'')]"

definition nb12_cell7 :: "event list" where
  "nb12_cell7 =
     [Build areaMask, Build objectId_large,
      AddLayer objectId_large (Dict []) (Some ''Large hotspots'')]"

definition nb12_cell8 :: "event list" where
  "nb12_cell8 =
     [Build kelvin_labels, Build patchTemp,
      AddLayer patchTemp
        (Dict [Kw ''min'' (Num 303), Kw ''max'' (Num 304),
               Kw ''palette'' (Lst [Str ''yellow'', Str ''red''])])
        (Some ''Mean temperature'')]"

definition nb12 :: "event list list" where
  "nb12 =
     [basemap_cell, nb12_cell3, nb12_cell4, nb12_cell5, nb12_cell6, nb12_cell7, nb12_cell8,
      display_cell]"

section \<open>All notebooks\<close>

definition notebooks :: "event list list list" where
  "notebooks = [nb03, nb04, nb09, nb12, nb13]"

section \<open>Observing an execution\<close>

text \<open>
  The statements of a straight-line cell that are reached when the history so far is \<open>h\<close>:
  all of them up to and including the first that raises.
\<close>

fun executed :: "world \<Rightarrow> event list \<Rightarrow> event list \<Rightarrow> event list" where
  "executed w h [] = []"
| "executed w h (ev # evs) =
    ev # (case raises w h ev of None \<Rightarrow> executed w (h @ [ev]) evs | Some e \<Rightarrow> [])"




text \<open>A program only ever appends to the trace.\<close>

definition grows :: "prog \<Rightarrow> bool" where
  "grows p \<longleftrightarrow> (\<forall>w s. \<exists>evs. trace (snd (p w s)) = trace s @ evs)"

text \<open>
  Two families of worlds: in \<open>once ev e\<close> the first attempt of the call \<open>ev\<close> raises
  \<open>e\<close> and everything else returns; in \<open>failing evs e\<close> every attempt of a call in
  \<open>evs\<close> raises \<open>e\<close>.
\<close>

definition once :: "event \<Rightarrow> exn \<Rightarrow> world" where
  "once ev e h ev' = (if ev' = ev \<and> ev \<notin> set h then Some e else None)"

definition failing :: "event list \<Rightarrow> exn \<Rightarrow> world" where
  "failing evs e h ev' = (if ev' \<in> set evs then Some e else None)"



text \<open>The trees that occur in a tree, and the check that every submitted expression
  contains a tree that an earlier statement built.\<close>

fun subtrees :: "ee \<Rightarrow> ee list" where
  "subtrees (Lst xs) = Lst xs # concat (map subtrees xs)"
| "subtrees (Dict xs) = Dict xs # concat (map subtrees xs)"
| "subtrees (Kw k v) = Kw k v # subtrees v"
| "subtrees (Lam x b) = Lam x b # subtrees b"
| "subtrees (Call f xs) = Call f xs # concat (map subtrees xs)"
| "subtrees e = [e]"


text \<open>The outermost function of a tree, and the trees with a given outermost function
  that the statements of the notebooks build.\<close>

fun root_op :: "ee \<Rightarrow> string" where
  "root_op (Call f xs) = f"
| "root_op e = []"

fun built :: "event \<Rightarrow> ee list" where
  "built (Build e) = [e]"
| "built ev = []"

definition built_with :: "string \<Rightarrow> ee list" where
  "built_with f = filter (\<lambda>e. root_op e = f) (concat (map built (concat (concat notebooks))))"

text \<open>The trees a statement holds, and all trees of the notebooks: those of every
  statement and the bodies of the functions the notebooks define, applied to the
  placeholder of \<^verbatim>\<open>map\<close>.\<close>

fun shown :: "pitem \<Rightarrow> ee list" where
  "shown (Info e) = [e]"
| "shown (Text t) = []"

fun trees_of :: "event \<Rightarrow> ee list" where
  "trees_of (Build e) = [e]"
| "trees_of (GetInfo e) = [e]"
| "trees_of (AddLayer e vis name) = [e, vis]"
| "trees_of (CenterObject e z) = [e, z]"
| "trees_of (SetCenter x y z) = [x, y, z]"
| "trees_of (NewMap args) = args"
| "trees_of (SetControlVisibility args) = args"
| "trees_of (Print xs) = concat (map shown xs)"
| "trees_of ev = []"

text \<open>The functions the notebooks define with \<^verbatim>\<open>def\<close> or \<^verbatim>\<open>lambda\<close>.\<close>

definition local_functions :: "(ee \<Rightarrow> ee) list" where
  "local_functions =
     [addTime,
      \<lambda>img. Call ''addBands'' [img, Call ''metadata'' [img, Str ''system:time_start'']],
      conditional,
      calNDVI,
      \<lambda>img. Call ''normalizedDifference'' [img, Lst [Str ''B5'', Str ''B4'']]]"

definition all_trees :: "ee list" where
  "all_trees =
     concat (map trees_of (bootstrap_stmts @ concat (concat notebooks)))
     @ map (\<lambda>g. g (Var ''image'')) local_functions"

text \<open>The call nodes of a function in a tree; the distinct call nodes of a function
  anywhere in the trees of the notebooks; the statements that hold a tree with a call of
  the function; the modules a statement imports.\<close>

definition calls :: "string \<Rightarrow> ee \<Rightarrow> ee list" where
  "calls f t = filter (\<lambda>u. root_op u = f) (subtrees t)"

definition calls_of :: "string \<Rightarrow> ee list" where
  "calls_of f = remdups (concat (map (calls f) all_trees))"

definition mentions :: "string \<Rightarrow> event list" where
  "mentions f =
     filter (\<lambda>ev. concat (map (calls f) (trees_of ev)) \<noteq> [])
       (bootstrap_stmts @ concat (concat notebooks))"

fun imported :: "event \<Rightarrow> string list" where
  "imported (Import m) = [m]"
| "imported ev = []"

text \<open>The four algorithms, by the names under which the notebooks call them, and the trees
  that are handed to the remote service.\<close>

definition algorithms :: "string list" where
  "algorithms = [''ee.Algorithms.CannyEdgeDetector'', ''ee.Algorithms.HoughTransform'',
     ''cumulativeCost'', ''connectedComponents'']"

fun submitted :: "event \<Rightarrow> ee list" where
  "submitted (GetInfo e) = [e]"
| "submitted (AddLayer e vis name) = [e]"
| "submitted (CenterObject e z) = [e]"
| "submitted ev = []"

definition sent :: "ee list" where
  "sent = concat (map subtrees (concat (map submitted (concat (concat notebooks)))))"

text \<open>
  What kind of object a tree denotes on the client, from its outermost function and, for
  \<^verbatim>\<open>get\<close> and \<^verbatim>\<open>format\<close>, the kind of the receiver. The notebook on image
  metadata annotates the objects it asks information about as \<^verbatim>\<open>ee.List\<close>,
  \<^verbatim>\<open>ee.Projection\<close>, \<^verbatim>\<open>ee.Number\<close> and \<^verbatim>\<open>ee.Date\<close>. Every function that
  is not listed is taken to give a raster.
\<close>

datatype kind =
  Raster | Elements | Names | Projection | Number | Property | Date | String | Geometry

fun kind_of :: "ee \<Rightarrow> kind" where
  "kind_of (Call f xs) =
    (if f = ''bandNames'' \<or> f = ''propertyNames'' then Names
     else if f = ''projection'' then Projection
     else if f = ''nominalScale'' then Number
     else if f = ''ee.Date'' then Date
     else if f = ''toList'' then Elements
     else if f = ''ee.Geometry.Point'' \<or> f = ''ee.Geometry.Rectangle'' \<or> f = ''buffer''
       then Geometry
     else if f = ''get'' then
       (case xs of x # ys \<Rightarrow> (if kind_of x = Raster then Property else Raster) | [] \<Rightarrow> Raster)
     else if f = ''format'' then
       (case xs of x # ys \<Rightarrow> (if kind_of x = Date then String else Raster) | [] \<Rightarrow> Raster)
     else Raster)"
| "kind_of e = Raster"

definition metadata_kinds :: "kind set" where
  "metadata_kinds = {Names, Projection, Number, Property, Date, String, Geometry}"

text \<open>
  Modelled from the spec: the reply of the remote service to a call that returns. The
  service is not part of the repository. The spec says that a submission retrieves a tile
  URL or a scalar or metadata result, that a tile layer is retrieved by URL, and that the
  session is initialized against the service. In this model \<^verbatim>\<open>Map.addLayer\<close> is
  answered by the address of a tile layer and \<^verbatim>\<open>Map.centerObject\<close> by the footprint or
  centroid of its object, as the recorded outputs show (one tile address per layer; the
  bounds of the scene in the notebook on image metadata); \<^verbatim>\<open>ee.Initialize()\<close> and
  \<^verbatim>\<open>ee.Authenticate()\<close> are answered by session data. For \<^verbatim>\<open>getInfo\<close> the model
  is more pessimistic than the spec: asked about a tree that denotes a raster or a list of
  rasters, or one of unknown kind, the service may answer with pixel values; asked about
  any other object it answers with information about that object.
\<close>

datatype reply = TileUrl | InfoAbout kind | Session | PixelData

fun reply_of :: "event \<Rightarrow> reply option" where
  "reply_of (GetInfo e) =
    Some (if kind_of e \<in> metadata_kinds then InfoAbout (kind_of e) else PixelData)"
| "reply_of (AddLayer e vis name) = Some TileUrl"
| "reply_of (CenterObject e z) = Some (InfoAbout Geometry)"
| "reply_of EEInitialize = Some Session"
| "reply_of EEAuthenticate = Some Session"
| "reply_of ev = None"

text \<open>
  The replies a run receives, replaying the world over the executed statements: a call
  that raises brings nothing back.
\<close>

fun received :: "world \<Rightarrow> event list \<Rightarrow> event list \<Rightarrow> reply list" where
  "received w h [] = []"
| "received w h (ev # evs) =
    (case raises w h ev of
       None \<Rightarrow> (case reply_of ev of None \<Rightarrow> [] | Some r \<Rightarrow> [r])
     | Some e \<Rightarrow> [])
    @ received w (h @ [ev]) evs"

text \<open>
  Modelled from the spec: what the client state keeps of the replies. The map widget and
  the output area belong to geehydro, folium and the notebook front end, which are not
  part of the repository. The spec says that the returned tile layers are rendered in an
  interactive map widget and that results are retrieved as a tile URL or a scalar or
  metadata result. In this model a tile layer of the map holds the address it was given,
  a basemap holds nothing of the service, and the output of a cell holds every value of
  \<^verbatim>\<open>getInfo\<close> that was printed.
\<close>

fun held_by_layer :: "layer \<Rightarrow> reply list" where
  "held_by_layer (TileLayer e vis name) = [TileUrl]"
| "held_by_layer (Basemap m) = []"

fun printed :: "event \<Rightarrow> reply list" where
  "printed (Print xs) = concat (map (\<lambda>e. case reply_of (GetInfo e) of None \<Rightarrow> [] | Some r \<Rightarrow> [r])
      (concat (map shown xs)))"
| "printed ev = []"

definition holds :: "client \<Rightarrow> reply list" where
  "holds s = concat (map held_by_layer (Map s)) @ concat (map printed (trace s))"

section \<open>Straight-line code and the combinators\<close>

lemma trace_run: "trace (snd (run evs w s)) = trace s @ executed w (trace s) evs"
  by (induction evs arbitrary: s) (auto simp: attempt_def split: option.splits)

lemma events_run: "events (run evs) w s = executed w (trace s) evs"
  by (simp add: events_def trace_run)

lemma executed_ok: "executed ok h evs = evs"
  by (induction evs arbitrary: h) (auto simp: raises_def ok_def)

lemma subseq_executed: "subseq (executed w h evs) evs"
  by (induction evs arbitrary: h) (auto split: option.splits)

lemma grows_run: "grows (run evs)"
  unfolding grows_def using trace_run by blast

lemma growsD: "grows p \<Longrightarrow> trace (snd (p w s)) = trace s @ events p w s"
  unfolding grows_def events_def
  by (metis append_eq_conv_conj)

lemma growsE:
  assumes "grows p"
  obtains evs where "trace (snd (p w s)) = trace s @ evs" and "events p w s = evs"
  using assms unfolding grows_def events_def by (metis append_eq_conv_conj)

lemma events_try_except:
  assumes "grows b" and "grows c"
  shows "events (try_except b h c) w s =
     events b w s @ (case fst (b w s) of None \<Rightarrow> []
        | Some e \<Rightarrow> if h e then events c w (snd (b w s)) else [])"
proof -
  obtain r s' where Pair: "b w s = (r, s')" by (cases "b w s")
  obtain xs where xs: "trace s' = trace s @ xs" "events b w s = xs"
    using growsE [OF assms(1), of w s] Pair by auto
  obtain ys where ys: "trace (snd (c w s')) = trace s' @ ys" "events c w s' = ys"
    using growsE [OF assms(2), of w s'] by auto
  have "events (try_except b h c) w s =
      (case r of None \<Rightarrow> xs | Some e \<Rightarrow> if h e then xs @ ys else xs)"
    using Pair xs(1) ys(1) by (auto simp: try_except_def events_def split: option.splits)
  then show ?thesis
    using Pair xs(2) ys(2) by (auto split: option.splits)
qed

lemma grows_try_except:
  assumes "grows b" and "grows c"
  shows "grows (try_except b h c)"
  unfolding grows_def
proof (intro allI)
  fix w s
  obtain r s' where Pair: "b w s = (r, s')" by (cases "b w s")
  obtain xs where xs: "trace s' = trace s @ xs"
    using growsE [OF assms(1), of w s] Pair by auto
  obtain ys where ys: "trace (snd (c w s')) = trace s' @ ys"
    using growsE [OF assms(2), of w s'] by auto
  show "\<exists>evs. trace (snd (try_except b h c w s)) = trace s @ evs"
    using Pair xs ys by (cases r) (auto simp: try_except_def)
qed

lemma events_block_Cons:
  assumes "grows p" and "grows (block ps)"
  shows "events (block (p # ps)) w s =
     events p w s @ (case fst (p w s) of None \<Rightarrow> events (block ps) w (snd (p w s))
        | Some e \<Rightarrow> [])"
proof -
  obtain r s' where Pair: "p w s = (r, s')" by (cases "p w s")
  obtain xs where xs: "trace s' = trace s @ xs" "events p w s = xs"
    using growsE [OF assms(1), of w s] Pair by auto
  obtain ys where ys: "trace (snd (block ps w s')) = trace s' @ ys" "events (block ps) w s' = ys"
    using growsE [OF assms(2), of w s'] by auto
  have "events (block (p # ps)) w s = (case r of None \<Rightarrow> xs @ ys | Some e \<Rightarrow> xs)"
    using Pair xs(1) ys(1) by (auto simp: events_def split: option.splits)
  then show ?thesis
    using Pair xs(2) ys(2) by (auto split: option.splits)
qed

lemma grows_block: "list_all grows ps \<Longrightarrow> grows (block ps)"
proof (induction ps)
  case Nil
  show ?case by (simp add: grows_def)
next
  case (Cons p ps)
  then have p: "grows p" and ps: "grows (block ps)" by simp_all
  show ?case
    unfolding grows_def
  proof (intro allI)
    fix w s
    obtain r s' where Pair: "p w s = (r, s')" by (cases "p w s")
    obtain xs where xs: "trace s' = trace s @ xs"
      using growsE [OF p, of w s] Pair by auto
    obtain ys where ys: "trace (snd (block ps w s')) = trace s' @ ys"
      using growsE [OF ps, of w s'] by auto
    show "\<exists>evs. trace (snd (block (p # ps) w s)) = trace s @ evs"
      using Pair xs ys by (cases r) auto
  qed
qed

lemma events_block_Nil: "events (block []) w s = []"
  by (simp add: events_def)

text \<open>The statements a program executes are a subsequence of its statements in source order.\<close>

lemma subseq_run: "subseq (events (run evs) w s) evs"
  by (simp add: events_run subseq_executed)

lemma subseq_try_except:
  assumes "grows b" and "grows c"
    and "\<And>w s. subseq (events b w s) B" and "\<And>w s. subseq (events c w s) C"
  shows "subseq (events (try_except b h c) w s) (B @ C)"
proof -
  have 1: "subseq (events b w s @ events c w (snd (b w s))) (B @ C)"
    using assms(3,4) by (rule list_emb_append_mono)
  have "subseq (events b w s @ []) (B @ C)"
    using assms(3) by (intro list_emb_append_mono) simp_all
  then have 2: "subseq (events b w s) (B @ C)" by simp
  show ?thesis
    using 1 2 by (simp add: events_try_except [OF assms(1,2)] split: option.splits)
qed

lemma subseq_block_Cons:
  assumes "grows p" and "grows (block ps)"
    and "\<And>w s. subseq (events p w s) B" and "\<And>w s. subseq (events (block ps) w s) C"
  shows "subseq (events (block (p # ps)) w s) (B @ C)"
proof -
  have 1: "subseq (events p w s @ events (block ps) w (snd (p w s))) (B @ C)"
    using assms(3,4) by (rule list_emb_append_mono)
  have "subseq (events p w s @ []) (B @ C)"
    using assms(3) by (intro list_emb_append_mono) simp_all
  then have 2: "subseq (events p w s) (B @ C)" by simp
  show ?thesis
    using 1 2 by (simp add: events_block_Cons [OF assms(1,2)] split: option.splits)
qed


lemma subseq_remote_calls: "subseq xs ys \<Longrightarrow> remote_calls xs \<le> remote_calls ys"
  unfolding remote_calls_def by (induction rule: list_emb.induct) auto

lemma try12:
  "try_except (run [a]) handles (run [b, c]) w s =
    (case raises w (trace s) a of
       None \<Rightarrow> (None, \<lparr>trace = trace s @ [a], Map = effect a (Map s)\<rparr>)
     | Some e \<Rightarrow>
        if handles e then
          (case raises w (trace s @ [a]) b of
             None \<Rightarrow>
               (case raises w (trace s @ [a, b]) c of
                  None \<Rightarrow> (None, \<lparr>trace = trace s @ [a, b, c], Map = effect c (effect b (Map s))\<rparr>)
                | Some e'' \<Rightarrow> (Some e'', \<lparr>trace = trace s @ [a, b, c], Map = effect b (Map s)\<rparr>))
           | Some e' \<Rightarrow> (Some e', \<lparr>trace = trace s @ [a, b], Map = Map s\<rparr>))
        else (Some e, \<lparr>trace = trace s @ [a], Map = Map s\<rparr>))"
  by (simp add: try_except_def attempt_def split: option.splits)

lemma try12_events:
  "events (try_except (run [a]) handles (run [b, c])) w s =
    (case raises w (trace s) a of
       None \<Rightarrow> [a]
     | Some e \<Rightarrow>
        if handles e then
          (case raises w (trace s @ [a]) b of None \<Rightarrow> [a, b, c] | Some e' \<Rightarrow> [a, b])
        else [a])"
  by (simp add: try12 events_def split: option.splits)

lemma try12_fst:
  "fst (try_except (run [a]) handles (run [b, c]) w s) =
    (case raises w (trace s) a of
       None \<Rightarrow> None
     | Some e \<Rightarrow>
        if handles e then
          (case raises w (trace s @ [a]) b of
             None \<Rightarrow> raises w (trace s @ [a, b]) c
           | Some e' \<Rightarrow> Some e')
        else Some e)"
  by (simp add: try12 split: option.splits)


lemma fst_block_Cons:
  "fst (block (p # ps) w s) =
    (case fst (p w s) of None \<Rightarrow> fst (block ps w (snd (p w s))) | Some e \<Rightarrow> Some e)"
  by (cases "p w s") (auto split: option.splits)















section \<open>The bootstrap cell\<close>

lemma subseq_set: "subseq xs ys \<Longrightarrow> set xs \<subseteq> set ys"
  by (induction rule: list_emb.induct) auto




lemma grows_install: "grows install_if_missing"
  unfolding install_if_missing_def by (intro grows_try_except grows_run)

lemma grows_init: "grows init_session"
  unfolding init_session_def by (intro grows_try_except grows_run)

lemma grows_bootstrap: "grows bootstrap_cell"
  unfolding bootstrap_cell_def
  by (rule grows_block) (simp add: grows_run grows_install grows_init)

lemma subseq_install:
  "subseq (events install_if_missing w s)
     ([Import ''geehydro''] @ [Print [Text ''geehydro package not installed. Installing ...''], pip_install])"
  unfolding install_if_missing_def
  by (rule subseq_try_except) (rule grows_run subseq_run)+

lemma subseq_init:
  "subseq (events init_session w s) ([EEInitialize] @ [EEAuthenticate, EEInitialize])"
  unfolding init_session_def
  by (rule subseq_try_except) (rule grows_run subseq_run)+

lemma subseq_tail1: "subseq (events (block [init_session]) w s) ([EEInitialize, EEAuthenticate, EEInitialize] @ [])"
  by (rule subseq_block_Cons)
    (use subseq_init in \<open>simp_all add: grows_init grows_block events_block_Nil del: block.simps\<close>)

lemma subseq_tail2:
  "subseq (events (block [run [Import ''ee'', Import ''folium'', Import ''geehydro''], init_session]) w s)
     ([Import ''ee'', Import ''folium'', Import ''geehydro''] @ [EEInitialize, EEAuthenticate, EEInitialize])"
  by (rule subseq_block_Cons)
    (use subseq_tail1 in \<open>simp_all add: grows_run grows_block grows_init subseq_run del: block.simps\<close>)

lemma subseq_tail3:
  "subseq (events (block [install_if_missing, run [Import ''ee'', Import ''folium'', Import ''geehydro''], init_session]) w s)
     ([Import ''geehydro'', Print [Text ''geehydro package not installed. Installing ...''], pip_install]
      @ [Import ''ee'', Import ''folium'', Import ''geehydro'', EEInitialize, EEAuthenticate, EEInitialize])"
  by (rule subseq_block_Cons)
    (use subseq_tail2 subseq_install in \<open>simp_all add: grows_run grows_block grows_init grows_install del: block.simps\<close>)

lemma subseq_bootstrap: "subseq (events bootstrap_cell w s) bootstrap_stmts"
proof -
  have "subseq (events bootstrap_cell w s)
     ([Import ''subprocess''] @ [Import ''geehydro'', Print [Text ''geehydro package not installed. Installing ...''], pip_install,
       Import ''ee'', Import ''folium'', Import ''geehydro'', EEInitialize, EEAuthenticate, EEInitialize])"
    unfolding bootstrap_cell_def
    by (rule subseq_block_Cons)
      (use subseq_tail3 in \<open>simp_all add: grows_run grows_block grows_init grows_install subseq_run del: block.simps\<close>)
  then show ?thesis by (simp add: bootstrap_stmts_def)
qed


lemma remote_calls_bootstrap_stmts:
  "remote_calls bootstrap_stmts = 3" "submissions bootstrap_stmts = 0"
  by (simp_all add: remote_calls_def submissions_def bootstrap_stmts_def pip_install_def)

lemma subseq_submissions: "subseq xs ys \<Longrightarrow> submissions xs \<le> submissions ys"
  unfolding submissions_def by (induction rule: list_emb.induct) auto

lemma remote_calls_bootstrap:
  "remote_calls (events bootstrap_cell w s) \<le> 3" "submissions (events bootstrap_cell w s) = 0"
  using subseq_remote_calls [OF subseq_bootstrap, of w s]
    subseq_submissions [OF subseq_bootstrap, of w s]
  by (simp_all add: remote_calls_bootstrap_stmts)



lemma init_events:
  "events init_session w s =
    (case w (trace s) EEInitialize of
       None \<Rightarrow> [EEInitialize]
     | Some e \<Rightarrow>
        if is_Exception e
        then (case w (trace s @ [EEInitialize]) EEAuthenticate of
                None \<Rightarrow> [EEInitialize, EEAuthenticate, EEInitialize]
              | Some e' \<Rightarrow> [EEInitialize, EEAuthenticate])
        else [EEInitialize])"
  unfolding init_session_def
  by (simp add: try12_events raises_def split: option.splits)

lemma init_fst:
  "fst (init_session w s) =
    (case w (trace s) EEInitialize of
       None \<Rightarrow> None
     | Some e \<Rightarrow>
        if is_Exception e
        then (case w (trace s @ [EEInitialize]) EEAuthenticate of
                None \<Rightarrow> w (trace s @ [EEInitialize, EEAuthenticate]) EEInitialize
              | Some e' \<Rightarrow> Some e')
        else Some e)"
  unfolding init_session_def
  by (simp add: try12_fst raises_def split: option.splits)





lemma run_ok:
  "run c ok s = (None, \<lparr>trace = trace s @ c, Map = foldl (\<lambda>ls ev. effect ev ls) (Map s) c\<rparr>)"
  by (induction c arbitrary: s) (auto simp: attempt_def raises_def ok_def)

lemma block_run_ok:
  "block (map run cells) ok s =
     (None, \<lparr>trace = trace s @ concat cells,
        Map = foldl (\<lambda>ls ev. effect ev ls) (Map s) (concat cells)\<rparr>)"
  by (induction cells arbitrary: s) (auto simp: run_ok)

lemma bootstrap_ok:
  "bootstrap_cell ok s =
     (None, \<lparr>trace = trace s @ [Import ''subprocess'', Import ''geehydro'', Import ''ee'',
        Import ''folium'', Import ''geehydro'', EEInitialize], Map = Map s\<rparr>)"
  by (simp add: bootstrap_cell_def install_if_missing_def init_session_def try12 run_ok
      raises_def ok_def)

lemma notebook_ok:
  "notebook cells ok s =
     (None, \<lparr>trace = trace s @ [Import ''subprocess'', Import ''geehydro'', Import ''ee'',
        Import ''folium'', Import ''geehydro'', EEInitialize] @ concat cells,
        Map = foldl (\<lambda>ls ev. effect ev ls) (Map s) (concat cells)\<rparr>)"
  by (simp add: notebook_def bootstrap_ok block_run_ok)

lemma events_notebook_ok:
  "events (notebook cells) ok s =
     [Import ''subprocess'', Import ''geehydro'', Import ''ee'',
        Import ''folium'', Import ''geehydro'', EEInitialize] @ concat cells"
  by (simp add: events_def notebook_ok)

lemma grows_block_run: "grows (block (map run cells))"
  by (rule grows_block) (simp add: list_all_iff grows_run)

lemma subseq_block_run: "subseq (events (block (map run cells)) w s) (concat cells)"
proof (induction cells arbitrary: w s)
  case Nil
  show ?case by (simp add: events_block_Nil del: block.simps)
next
  case (Cons c cells)
  have "subseq (events (block (run c # map run cells)) w s) (c @ concat cells)"
    by (rule subseq_block_Cons) (rule grows_run grows_block_run subseq_run Cons.IH)+
  then show ?case by (simp del: block.simps)
qed

lemma subseq_notebook: "subseq (events (notebook cells) w s) (bootstrap_stmts @ concat cells)"
  unfolding notebook_def
  by (rule subseq_block_Cons) (rule grows_bootstrap grows_block_run subseq_bootstrap subseq_block_run)+

section \<open>The cost expression\<close>

lemma px_cover [simp]: "px cover v cover = v"
  by (simp add: cover_def)

lemma px_eq_cover [simp]: "px cover (Some v) (eq_ee cover n) = Some (truth (v = real_of_int n))"
  by (simp add: eq_ee_def cover_def)

lemma px_Or [simp]:
  "px cover v a = Some x \<Longrightarrow> px cover v b = Some y \<Longrightarrow>
   px cover v (Or_ee a b) = Some (truth (x \<noteq> 0 \<or> y \<noteq> 0))"
  by (simp add: Or_ee_def cover_def)

lemma px_multiply_const [simp]:
  "px cover v a = Some x \<Longrightarrow> px cover v (multiply_ee a (Num n)) = Some (x * real_of_int n)"
  by (simp add: multiply_ee_def cover_def)

lemma px_add [simp]:
  "px cover v a = Some x \<Longrightarrow> px cover v b = Some y \<Longrightarrow> px cover v (add_ee a b) = Some (x + y)"
  by (simp add: add_ee_def cover_def)

lemma px_cost1: "px cover (Some v) cost1 = Some (truth (v \<in> classes1))"
  by (simp add: cost1_def classes1_def truth_def)

lemma px_cost2: "px cover (Some v) cost2 = Some (2 * truth (v \<in> classes2))"
  by (simp add: cost2_def classes2_def truth_def)

lemma px_cost3: "px cover (Some v) cost3 = Some (3 * truth (v \<in> classes3))"
  by (simp add: cost3_def classes3_def truth_def)

text \<open>
  C4. For every class value \<open>v\<close> of the land-cover image, the cost expression of the
  cumulative-cost notebook evaluates pointwise to 1 on the classes 60, 80, 110, 140, to 2
  on 40, 90, 120, 130, 170, to 3 on 50, 70, 150, 160, and to 0 on every other value. The
  three class sets are pairwise disjoint, and at most one of the three summed terms is
  non-zero.
\<close>

theorem cost_classification:
  "px cover (Some v) cost =
     Some (if v \<in> classes1 then 1 else if v \<in> classes2 then 2 else if v \<in> classes3 then 3 else 0)
   \<and> classes1 \<inter> classes2 = {} \<and> classes1 \<inter> classes3 = {} \<and> classes2 \<inter> classes3 = {}
   \<and> ((px cover (Some v) cost1 = Some 0 \<and> px cover (Some v) cost2 = Some 0)
      \<or> (px cover (Some v) cost1 = Some 0 \<and> px cover (Some v) cost3 = Some 0)
      \<or> (px cover (Some v) cost2 = Some 0 \<and> px cover (Some v) cost3 = Some 0))"
proof -
  have d12: "classes1 \<inter> classes2 = {}" and d13: "classes1 \<inter> classes3 = {}"
    and d23: "classes2 \<inter> classes3 = {}"
    by (simp_all add: classes1_def classes2_def classes3_def)
  have total: "px cover (Some v) cost =
      Some (truth (v \<in> classes1) + (2 * truth (v \<in> classes2) + 3 * truth (v \<in> classes3)))"
    by (simp add: cost_def px_cost1 px_cost2 px_cost3)
  show ?thesis
    using d12 d13 d23 by (auto simp: total px_cost1 px_cost2 px_cost3 truth_def)
qed

theorem cost_classification_witness:
  "px cover (Some 90) cost = Some 2 \<and> px cover (Some 30) cost = Some 0"
  using cost_classification [of 90] cost_classification [of 30]
  by (simp add: classes1_def classes2_def classes3_def)

section \<open>The hotspots image\<close>

lemma px_kelvin [simp]: "px kelvin p kelvin = p"
  by (simp add: kelvin_def)

lemma px_hotspots:
  "px kelvin p hotspots = (case p of None \<Rightarrow> None | Some t \<Rightarrow> if t > 303 then Some 1 else None)"
  by (cases p) (simp_all add: hotspots_def kelvin_def truth_def)

text \<open>
  C10. The hotspots image \<^verbatim>\<open>kelvin.gt(303).selfMask().rename('hotspots')\<close> is
  binary-masked: an unmasked pixel has the value 1 and lies where the temperature is above
  303; a pixel with temperature at most 303 is masked, not carried as 0; no pixel has the
  value 0. The image is the one \<^verbatim>\<open>connectedComponents\<close> is called on.
\<close>

theorem hotspots_binary_masked:
  "(px kelvin p hotspots = Some v \<longrightarrow> v = 1 \<and> (\<exists>t. p = Some t \<and> t > 303))
   \<and> (p = Some t \<and> t \<le> 303 \<longrightarrow> px kelvin p hotspots = None)
   \<and> px kelvin p hotspots \<noteq> Some 0
   \<and> objectId = Call ''connectedComponents''
        [hotspots, Kw ''connectedness'' (Call ''ee.Kernel.plus'' [Num 1]), Kw ''maxSize'' (Num 128)]"
proof -
  have one: "px kelvin p hotspots = Some v \<longrightarrow> v = 1 \<and> (\<exists>t. p = Some t \<and> t > 303)"
    by (cases p) (auto simp: px_hotspots split: if_splits)
  have cold: "p = Some t \<and> t \<le> 303 \<longrightarrow> px kelvin p hotspots = None"
    by (auto simp: px_hotspots)
  have nonzero: "px kelvin p hotspots \<noteq> Some 0"
    by (cases p) (auto simp: px_hotspots)
  show ?thesis
    using one cold nonzero by (simp add: objectId_def)
qed

theorem hotspots_binary_masked_witness:
  "px kelvin (Some 310) hotspots = Some 1 \<and> px kelvin (Some 300) hotspots = None
   \<and> px kelvin (Some 303) hotspots = None"
proof -
  have a: "px kelvin (Some 310) hotspots = Some 1"
    by (simp add: px_hotspots)
  have b: "(300::real) \<le> 303" and c: "(303::real) \<le> 303" by simp_all
  show ?thesis
    using a hotspots_binary_masked [of "Some 310" 1 300]
      hotspots_binary_masked [of "Some 300" 0 300] hotspots_binary_masked [of "Some 303" 0 303]
    by simp
qed

lemma count_op_canny: "count_op ''ee.Algorithms.CannyEdgeDetector'' canny = 1"
  by (simp add: canny_def image_nb09_def)

lemma count_op_hough: "count_op ''ee.Algorithms.HoughTransform'' hough = 1"
  by (simp add: hough_def canny_def image_nb09_def)

lemma count_op_cumulativeCost: "count_op ''cumulativeCost'' cumulativeCost = 1"
  by (simp add: cumulativeCost_def cost_def cost1_def cost2_def cost3_def add_ee_def
      multiply_ee_def Or_ee_def eq_ee_def cover_def sources_def sources0_def geometry_def)

lemma count_op_objectId: "count_op ''connectedComponents'' objectId = 1"
  by (simp add: objectId_def hotspots_def kelvin_def aoi_def point_nb12_def)

section \<open>The named algorithms and the replies\<close>

lemma upt3: "[0..<3] = [0, 1, 2]"
  by (simp add: upt_rec)

lemmas cell_defs =
  basemap_cell_def display_cell_def print_info_def nb03_cell3_def
  nb04_cell3_def nb04_cell4_def nb04_cell5_def nb04_cell6_def nb04_cell7_def loop_body_def upt3
  nb09_cell3_def nb09_cell4_def nb09_cell5_def
  nb12_cell3_def nb12_cell4_def nb12_cell5_def nb12_cell6_def nb12_cell7_def nb12_cell8_def
  nb13_cell3_def

lemmas notebook_defs = notebooks_def nb03_def nb04_def nb09_def nb12_def nb13_def

lemma all_built:
  "concat (map built (concat (concat notebooks))) =
    [image_nb03, bandNames, b1proj, b1scale, b8scale, properties, cloudiness, date, date2,
     collection_toa, first,
     collection_toa,
     Call ''first'' [map_ee collection_toa
        (\<lambda>img. Call ''addBands'' [img, Call ''metadata'' [img, Str ''system:time_start'']])],
     collection_toa, path_row ''LANDSAT/LC8_L1T_TOA'',
     point_nb04, collection_knox, ndvi_images,
     landsat 0, ndvi 0, landsat 1, ndvi 1, landsat 2, ndvi 2,
     point_nb04, collection_knox,
     map_ee collection_knox (\<lambda>img. Call ''normalizedDifference'' [img, Lst [Str ''B5'', Str ''B4'']]),
     landsat 0, ndvi 0, landsat 1, ndvi 1, landsat 2, ndvi 2,
     image_nb09, canny, hough, image_nb09, fat, skinny, dog, zeroXings,
     point_nb12, aoi, kelvin, hotspots, objectId, objectSize, pixelArea, objectArea, areaMask,
     objectId_large, kelvin_labels, patchTemp,
     geometry, sources0, sources, cover, cost, cumulativeCost]"
  by (simp add: notebook_defs cell_defs)

lemma root_ops:
  "root_op image_nb03 = ''ee.Image''" "root_op bandNames = ''bandNames''"
  "root_op b1proj = ''projection''" "root_op b1scale = ''nominalScale''"
  "root_op b8scale = ''nominalScale''" "root_op properties = ''propertyNames''"
  "root_op cloudiness = ''get''" "root_op date = ''ee.Date''" "root_op date2 = ''format''"
  "root_op collection_toa = ''filter''" "root_op first = ''first''"
  "root_op (path_row name) = ''filter''" "root_op point_nb04 = ''ee.Geometry.Point''"
  "root_op collection_knox = ''limit''" "root_op ndvi_images = ''map''"
  "root_op (map_ee coll f) = ''map''"
  "root_op (landsat i) = ''ee.Image''" "root_op (ndvi i) = ''ee.Image''"
  "root_op image_nb09 = ''select''" "root_op canny = ''ee.Algorithms.CannyEdgeDetector''"
  "root_op hough = ''ee.Algorithms.HoughTransform''" "root_op fat = ''ee.Kernel.gaussian''"
  "root_op skinny = ''ee.Kernel.gaussian''" "root_op dog = ''add''"
  "root_op zeroXings = ''zeroCrossing''"
  "root_op point_nb12 = ''ee.Geometry.Point''" "root_op aoi = ''buffer''"
  "root_op kelvin = ''clip''" "root_op hotspots = ''rename''"
  "root_op objectId = ''connectedComponents''" "root_op objectSize = ''connectedPixelCount''"
  "root_op pixelArea = ''ee.Image.pixelArea''" "root_op objectArea = ''multiply''"
  "root_op areaMask = ''gte''" "root_op objectId_large = ''updateMask''"
  "root_op kelvin_labels = ''addBands''" "root_op patchTemp = ''reduceConnectedComponents''"
  "root_op geometry = ''ee.Geometry.Rectangle''" "root_op sources0 = ''paint''"
  "root_op sources = ''updateMask''" "root_op cover = ''select''" "root_op cost = ''add''"
  "root_op cumulativeCost = ''cumulativeCost''"
  by (simp_all add: image_nb03_def bandNames_def b1proj_def b1scale_def b8scale_def
      properties_def cloudiness_def date_def date2_def collection_toa_def first_def path_row_def
      point_nb04_def collection_knox_def ndvi_images_def map_ee_def landsat_def ndvi_def
      image_nb09_def canny_def hough_def fat_def skinny_def dog_def zeroXings_def
      point_nb12_def aoi_def kelvin_def hotspots_def objectId_def objectSize_def pixelArea_def
      objectArea_def areaMask_def objectId_large_def kelvin_labels_def patchTemp_def
      geometry_def sources0_def sources_def cover_def cost_def add_ee_def cumulativeCost_def)

lemma built_with_algorithms:
  "built_with ''ee.Algorithms.CannyEdgeDetector'' = [canny]"
  "built_with ''ee.Algorithms.HoughTransform'' = [hough]"
  "built_with ''cumulativeCost'' = [cumulativeCost]"
  "built_with ''connectedComponents'' = [objectId]"
  by (simp_all add: built_with_def all_built root_ops)

text \<open>The call nodes of a function in a tree, computed on the tree.\<close>

lemma calls_simps:
  "calls f (Call g xs) = (if f = g then [Call g xs] else []) @ concat (map (calls f) xs)"
  "calls f (Lst xs) = (if f = [] then [Lst xs] else []) @ concat (map (calls f) xs)"
  "calls f (Dict xs) = (if f = [] then [Dict xs] else []) @ concat (map (calls f) xs)"
  "calls f (Kw k v) = (if f = [] then [Kw k v] else []) @ calls f v"
  "calls f (Lam x b) = (if f = [] then [Lam x b] else []) @ calls f b"
  "calls f (Num n) = (if f = [] then [Num n] else [])"
  "calls f (Dec m e) = (if f = [] then [Dec m e] else [])"
  "calls f (Str s) = (if f = [] then [Str s] else [])"
  "calls f (Bool c) = (if f = [] then [Bool c] else [])"
  "calls f (Var x) = (if f = [] then [Var x] else [])"
  by (auto simp: calls_def [abs_def] filter_concat comp_def)

lemma in_algorithms:
  "''ee.Algorithms.CannyEdgeDetector'' \<in> set algorithms"
  "''ee.Algorithms.HoughTransform'' \<in> set algorithms"
  "''cumulativeCost'' \<in> set algorithms"
  "''connectedComponents'' \<in> set algorithms"
  by (simp_all add: algorithms_def)

text \<open>The other functions the notebooks call.\<close>

lemma not_algorithm:
  assumes "f \<in> set algorithms"
  shows
  "f \<noteq> []" "f \<noteq> ''Or''" "f \<noteq> ''add''" "f \<noteq> ''addBands''"
  "f \<noteq> ''bandNames''" "f \<noteq> ''buffer''" "f \<noteq> ''clip''"
  "f \<noteq> ''connectedPixelCount''" "f \<noteq> ''convolve''"
  "f \<noteq> ''ee.Algorithms.If''" "f \<noteq> ''ee.Date''" "f \<noteq> ''ee.Filter.eq''"
  "f \<noteq> ''ee.Geometry.Point''" "f \<noteq> ''ee.Geometry.Rectangle''"
  "f \<noteq> ''ee.Image''" "f \<noteq> ''ee.Image.pixelArea''"
  "f \<noteq> ''ee.ImageCollection''" "f \<noteq> ''ee.Kernel.gaussian''"
  "f \<noteq> ''ee.Kernel.plus''" "f \<noteq> ''ee.Number''" "f \<noteq> ''ee.Reducer.mean''"
  "f \<noteq> ''eq''" "f \<noteq> ''filter''" "f \<noteq> ''filterBounds''"
  "f \<noteq> ''first''" "f \<noteq> ''format''" "f \<noteq> ''get''" "f \<noteq> ''gt''"
  "f \<noteq> ''gte''" "f \<noteq> ''limit''" "f \<noteq> ''map''" "f \<noteq> ''metadata''"
  "f \<noteq> ''multiply''" "f \<noteq> ''nominalScale''" "f \<noteq> ''normalizedDifference''"
  "f \<noteq> ''paint''" "f \<noteq> ''projection''" "f \<noteq> ''propertyNames''"
  "f \<noteq> ''randomVisualizer''" "f \<noteq> ''reduceConnectedComponents''"
  "f \<noteq> ''rename''" "f \<noteq> ''select''" "f \<noteq> ''selfMask''"
  "f \<noteq> ''sort''" "f \<noteq> ''toByte''" "f \<noteq> ''toList''"
  "f \<noteq> ''updateMask''" "f \<noteq> ''zeroCrossing''"
  using assms by (auto simp: algorithms_def)

lemma calls_builders:
  assumes "f \<in> set algorithms"
  shows
    "calls f (path_row name) = []"
    "calls f (addTime t) = calls f t @ calls f t"
    "calls f (conditional t) = calls f t @ calls f t"
    "calls f (calNDVI t) = calls f t"
    "calls f (map_ee coll g) = calls f coll @ calls f (g (Var ''image''))"
    "calls f (eq_ee t n) = calls f t"
    "calls f (Or_ee a b) = calls f a @ calls f b"
    "calls f (multiply_ee a b) = calls f a @ calls f b"
    "calls f (add_ee a b) = calls f a @ calls f b"
  by (simp_all add: calls_simps not_algorithm [OF assms] path_row_def addTime_def
      conditional_def calNDVI_def map_ee_def eq_ee_def Or_ee_def multiply_ee_def add_ee_def)

lemma calls_sources:
  assumes "f \<in> set algorithms"
  shows
    "calls f image_nb03 = []"
    "calls f point_nb04 = []"
    "calls f vizParams = []"
    "calls f image_nb09 = []"
    "calls f fat = []"
    "calls f skinny = []"
    "calls f point_nb12 = []"
    "calls f pixelArea = []"
    "calls f geometry = []"
    "calls f cover = []"
  by (simp_all add: calls_simps not_algorithm [OF assms] calls_builders [OF assms]
      image_nb03_def point_nb04_def vizParams_def image_nb09_def fat_def skinny_def
      point_nb12_def pixelArea_def geometry_def cover_def)

lemma calls_level1:
  assumes "f \<in> set algorithms"
  shows
    "calls f bandNames = []"
    "calls f b1proj = []"
    "calls f b1scale = []"
    "calls f b8scale = []"
    "calls f properties = []"
    "calls f cloudiness = []"
    "calls f date = []"
    "calls f collection_toa = []"
    "calls f collection_knox = []"
    "calls f dog = []"
    "calls f aoi = []"
    "calls f sources0 = []"
    "calls f cost1 = []"
    "calls f cost2 = []"
    "calls f cost3 = []"
    "calls f canny = (if f = ''ee.Algorithms.CannyEdgeDetector'' then [canny] else [])"
  by (simp_all add: calls_simps not_algorithm [OF assms] calls_builders [OF assms]
      calls_sources [OF assms] bandNames_def b1proj_def b1scale_def b8scale_def properties_def
      cloudiness_def date_def collection_toa_def collection_knox_def dog_def aoi_def
      sources0_def cost1_def cost2_def cost3_def canny_def)

lemma calls_level2:
  assumes "f \<in> set algorithms"
  shows
    "calls f date2 = []"
    "calls f first = []"
    "calls f ndvi_images = []"
    "calls f (landsat i) = []"
    "calls f zeroXings = []"
    "calls f kelvin = []"
    "calls f sources = []"
    "calls f cost = []"
    "calls f hough =
       (if f = ''ee.Algorithms.HoughTransform'' then [hough] else [])
       @ (if f = ''ee.Algorithms.CannyEdgeDetector'' then [canny] else [])"
  by (simp_all add: calls_simps not_algorithm [OF assms] calls_builders [OF assms]
      calls_sources [OF assms] calls_level1 [OF assms] date2_def first_def ndvi_images_def
      landsat_def zeroXings_def kelvin_def sources_def cost_def hough_def)

lemma calls_level3:
  assumes "f \<in> set algorithms"
  shows
    "calls f (ndvi i) = []"
    "calls f hotspots = []"
    "calls f cumulativeCost = (if f = ''cumulativeCost'' then [cumulativeCost] else [])"
  by (simp_all add: calls_simps not_algorithm [OF assms] calls_builders [OF assms]
      calls_sources [OF assms] calls_level1 [OF assms] calls_level2 [OF assms] ndvi_def
      hotspots_def cumulativeCost_def)

lemma calls_objectId:
  assumes "f \<in> set algorithms"
  shows
    "calls f objectId = (if f = ''connectedComponents'' then [objectId] else [])"
  by (simp_all add: calls_simps not_algorithm [OF assms] calls_builders [OF assms]
      calls_sources [OF assms] calls_level1 [OF assms] calls_level2 [OF assms]
      calls_level3 [OF assms] objectId_def)

lemma calls_objectSize:
  assumes "f \<in> set algorithms"
  shows
    "calls f objectSize = (if f = ''connectedComponents'' then [objectId] else [])"
  by (simp_all add: calls_simps not_algorithm [OF assms] calls_builders [OF assms]
      calls_sources [OF assms] calls_level1 [OF assms] calls_level2 [OF assms]
      calls_level3 [OF assms] calls_objectId [OF assms] objectSize_def)

lemma calls_objectArea:
  assumes "f \<in> set algorithms"
  shows
    "calls f objectArea = (if f = ''connectedComponents'' then [objectId] else [])"
  by (simp_all add: calls_simps not_algorithm [OF assms] calls_builders [OF assms]
      calls_sources [OF assms] calls_level1 [OF assms] calls_level2 [OF assms]
      calls_level3 [OF assms] calls_objectId [OF assms] calls_objectSize [OF assms]
      objectArea_def)

lemma calls_areaMask:
  assumes "f \<in> set algorithms"
  shows
    "calls f areaMask = (if f = ''connectedComponents'' then [objectId] else [])"
  by (simp_all add: calls_simps not_algorithm [OF assms] calls_builders [OF assms]
      calls_sources [OF assms] calls_level1 [OF assms] calls_level2 [OF assms]
      calls_level3 [OF assms] calls_objectId [OF assms] calls_objectSize [OF assms]
      calls_objectArea [OF assms] areaMask_def)

lemma calls_objectId_large:
  assumes "f \<in> set algorithms"
  shows
    "calls f objectId_large = (if f = ''connectedComponents'' then [objectId, objectId] else [])"
  by (simp_all add: calls_simps not_algorithm [OF assms] calls_builders [OF assms]
      calls_sources [OF assms] calls_level1 [OF assms] calls_level2 [OF assms]
      calls_level3 [OF assms] calls_objectId [OF assms] calls_objectSize [OF assms]
      calls_objectArea [OF assms] calls_areaMask [OF assms] objectId_large_def)

lemma calls_kelvin_labels:
  assumes "f \<in> set algorithms"
  shows
    "calls f kelvin_labels = (if f = ''connectedComponents'' then [objectId, objectId] else [])"
  by (simp_all add: calls_simps not_algorithm [OF assms] calls_builders [OF assms]
      calls_sources [OF assms] calls_level1 [OF assms] calls_level2 [OF assms]
      calls_level3 [OF assms] calls_objectId [OF assms] calls_objectSize [OF assms]
      calls_objectArea [OF assms] calls_areaMask [OF assms] calls_objectId_large [OF assms]
      kelvin_labels_def)

lemma calls_patchTemp:
  assumes "f \<in> set algorithms"
  shows
    "calls f patchTemp = (if f = ''connectedComponents'' then [objectId, objectId] else [])"
  by (simp_all add: calls_simps not_algorithm [OF assms] calls_builders [OF assms]
      calls_sources [OF assms] calls_level1 [OF assms] calls_level2 [OF assms]
      calls_level3 [OF assms] calls_objectId [OF assms] calls_objectSize [OF assms]
      calls_objectArea [OF assms] calls_areaMask [OF assms] calls_objectId_large [OF assms]
      calls_kelvin_labels [OF assms] patchTemp_def)

lemmas calls_named =
  calls_builders calls_sources calls_level1 calls_level2 calls_level3 calls_objectId
  calls_objectSize calls_objectArea calls_areaMask calls_objectId_large calls_kelvin_labels
  calls_patchTemp

lemmas calls_canny = calls_named [OF in_algorithms(1)] not_algorithm [OF in_algorithms(1)]
lemmas calls_hough = calls_named [OF in_algorithms(2)] not_algorithm [OF in_algorithms(2)]
lemmas calls_cumulativeCost = calls_named [OF in_algorithms(3)] not_algorithm [OF in_algorithms(3)]
lemmas calls_connectedComponents = calls_named [OF in_algorithms(4)] not_algorithm [OF in_algorithms(4)]

lemmas stmts_defs = all_trees_def local_functions_def notebook_defs cell_defs
  bootstrap_stmts_def pip_install_def calls_simps

lemma calls_of_algorithms:
  "calls_of ''ee.Algorithms.CannyEdgeDetector'' = [canny]"
  "calls_of ''ee.Algorithms.HoughTransform'' = [hough]"
  "calls_of ''cumulativeCost'' = [cumulativeCost]"
  "calls_of ''connectedComponents'' = [objectId]"
     apply (simp add: calls_of_def stmts_defs calls_canny)
    apply (simp add: calls_of_def stmts_defs calls_hough)
   apply (simp add: calls_of_def stmts_defs calls_cumulativeCost)
  apply (simp add: calls_of_def stmts_defs calls_connectedComponents)
  done

lemma mentions_algorithms:
  "mentions ''ee.Algorithms.CannyEdgeDetector'' =
     [Build canny, AddLayer canny (Dict []) (Some ''canny'')] @ nb09_cell4"
  "mentions ''ee.Algorithms.HoughTransform'' = nb09_cell4"
  "mentions ''cumulativeCost'' =
     [Build cumulativeCost,
      AddLayer cumulativeCost (Dict [Kw ''min'' (Num 0), Kw ''max'' (Dec 5 4)])
        (Some ''accumulated cost'')]"
  "mentions ''connectedComponents'' =
     nb12_cell4 @ nb12_cell5 @ tl nb12_cell6 @ nb12_cell7 @ nb12_cell8"
     apply (simp add: mentions_def stmts_defs calls_canny)
    apply (simp add: mentions_def stmts_defs calls_hough)
   apply (simp add: mentions_def stmts_defs calls_cumulativeCost)
  apply (simp add: mentions_def stmts_defs calls_connectedComponents)
  done

lemma imported_modules:
  "remdups (concat (map imported (bootstrap_stmts @ concat (concat notebooks)))) =
     [''subprocess'', ''ee'', ''folium'', ''geehydro'']"
  by (simp add: notebook_defs cell_defs bootstrap_stmts_def pip_install_def)

lemma local_functions_add_no_call:
  assumes "f \<in> set algorithms"
  shows "map (\<lambda>g. calls f (g t)) local_functions =
     [calls f t @ calls f t, calls f t @ calls f t, calls f t @ calls f t, calls f t, calls f t]"
  by (simp add: local_functions_def calls_builders [OF assms] calls_simps not_algorithm [OF assms])

lemma subtrees_root: "e \<in> set (subtrees e)"
  by (cases e) simp_all

lemma sentI:
  "ev \<in> set (concat (concat notebooks)) \<Longrightarrow> e \<in> set (submitted ev)
     \<Longrightarrow> u \<in> set (subtrees e) \<Longrightarrow> u \<in> set sent"
  unfolding sent_def by auto

lemma algorithms_sent:
  "canny \<in> set sent" "hough \<in> set sent" "cumulativeCost \<in> set sent" "objectId \<in> set sent"
proof -
  have "AddLayer canny (Dict []) (Some ''canny'') \<in> set (concat (concat notebooks))"
    by (simp add: notebooks_def nb09_def nb09_cell3_def)
  then show "canny \<in> set sent" by (rule sentI [where e = canny]) (simp_all add: subtrees_root)
  have "AddLayer hough (Dict []) (Some ''hough'') \<in> set (concat (concat notebooks))"
    by (simp add: notebooks_def nb09_def nb09_cell4_def)
  then show "hough \<in> set sent" by (rule sentI [where e = hough]) (simp_all add: subtrees_root)
  have "AddLayer cumulativeCost (Dict [Kw ''min'' (Num 0), Kw ''max'' (Dec 5 4)])
        (Some ''accumulated cost'') \<in> set (concat (concat notebooks))"
    by (simp add: notebooks_def nb13_def nb13_cell3_def)
  then show "cumulativeCost \<in> set sent" by (rule sentI [where e = cumulativeCost]) (simp_all add: subtrees_root)
  have "AddLayer (Call ''randomVisualizer'' [objectId]) (Dict []) (Some ''Objects'')
      \<in> set (concat (concat notebooks))"
    by (simp add: notebooks_def nb12_def nb12_cell4_def)
  then show "objectId \<in> set sent"
    by (rule sentI [where e = "Call ''randomVisualizer'' [objectId]"]) (simp_all add: subtrees_root)
qed

text \<open>
  C3. Each of the four algorithms is one call node. Over every tree of every statement of
  the notebooks, inline arguments and the bodies of the locally defined functions
  included, the calls of the algorithm are one and the same node; exactly one statement
  builds a tree with the algorithm outermost, and the algorithm occurs once in that tree;
  the statements that hold a tree with the node are the one that builds it and those that
  pass it on, and the node is part of a tree that is handed to the remote service. Nothing
  in the source implements the algorithms: the only modules the notebooks import are
  \<^verbatim>\<open>subprocess\<close>, \<^verbatim>\<open>ee\<close>, \<^verbatim>\<open>folium\<close> and \<^verbatim>\<open>geehydro\<close>, and each of the
  five functions they define returns a tree whose calls of the algorithms are those of
  its argument.
\<close>

theorem algorithms_are_single_nodes:
  "calls_of ''ee.Algorithms.CannyEdgeDetector'' = [canny]
   \<and> calls_of ''ee.Algorithms.HoughTransform'' = [hough]
   \<and> calls_of ''cumulativeCost'' = [cumulativeCost]
   \<and> calls_of ''connectedComponents'' = [objectId]
   \<and> built_with ''ee.Algorithms.CannyEdgeDetector'' = [canny]
   \<and> built_with ''ee.Algorithms.HoughTransform'' = [hough]
   \<and> built_with ''cumulativeCost'' = [cumulativeCost]
   \<and> built_with ''connectedComponents'' = [objectId]
   \<and> count_op ''ee.Algorithms.CannyEdgeDetector'' canny = 1
   \<and> count_op ''ee.Algorithms.HoughTransform'' hough = 1
   \<and> count_op ''cumulativeCost'' cumulativeCost = 1
   \<and> count_op ''connectedComponents'' objectId = 1
   \<and> mentions ''ee.Algorithms.CannyEdgeDetector'' =
       [Build canny, AddLayer canny (Dict []) (Some ''canny'')] @ nb09_cell4
   \<and> mentions ''ee.Algorithms.HoughTransform'' = nb09_cell4
   \<and> mentions ''cumulativeCost'' =
       [Build cumulativeCost,
        AddLayer cumulativeCost (Dict [Kw ''min'' (Num 0), Kw ''max'' (Dec 5 4)])
          (Some ''accumulated cost'')]
   \<and> mentions ''connectedComponents'' =
       nb12_cell4 @ nb12_cell5 @ tl nb12_cell6 @ nb12_cell7 @ nb12_cell8
   \<and> set [canny, hough, cumulativeCost, objectId] \<subseteq> set sent
   \<and> remdups (concat (map imported (bootstrap_stmts @ concat (concat notebooks)))) =
       [''subprocess'', ''ee'', ''folium'', ''geehydro'']
   \<and> (\<forall>f \<in> set algorithms. \<forall>t. map (\<lambda>g. calls f (g t)) local_functions =
         [calls f t @ calls f t, calls f t @ calls f t, calls f t @ calls f t,
          calls f t, calls f t])"
proof -
  have "\<forall>f \<in> set algorithms. \<forall>t. map (\<lambda>g. calls f (g t)) local_functions =
         [calls f t @ calls f t, calls f t @ calls f t, calls f t @ calls f t,
          calls f t, calls f t]"
    using local_functions_add_no_call by blast
  moreover have "set [canny, hough, cumulativeCost, objectId] \<subseteq> set sent"
    by (simp add: algorithms_sent)
  ultimately show ?thesis
    by (simp only: calls_of_algorithms built_with_algorithms count_op_canny count_op_hough
        count_op_cumulativeCost count_op_objectId mentions_algorithms imported_modules
        simp_thms)
qed

theorem algorithms_are_single_nodes_witness:
  "''connectedComponents'' \<in> set algorithms
   \<and> map (\<lambda>g. calls ''connectedComponents'' (g objectId)) local_functions =
       [[objectId, objectId], [objectId, objectId], [objectId, objectId], [objectId], [objectId]]
   \<and> length (calls_of ''connectedComponents'') = 1
   \<and> length (mentions ''connectedComponents'') = 12"
proof -
  have a: "''connectedComponents'' \<in> set algorithms"
    by (rule in_algorithms)
  have b: "calls ''connectedComponents'' objectId = [objectId]"
    by (simp add: calls_connectedComponents)
  have "\<forall>f \<in> set algorithms. \<forall>t. map (\<lambda>g. calls f (g t)) local_functions =
         [calls f t @ calls f t, calls f t @ calls f t, calls f t @ calls f t,
          calls f t, calls f t]"
    using algorithms_are_single_nodes by (elim conjE)
  with a have "map (\<lambda>g. calls ''connectedComponents'' (g objectId)) local_functions =
      [calls ''connectedComponents'' objectId @ calls ''connectedComponents'' objectId,
       calls ''connectedComponents'' objectId @ calls ''connectedComponents'' objectId,
       calls ''connectedComponents'' objectId @ calls ''connectedComponents'' objectId,
       calls ''connectedComponents'' objectId, calls ''connectedComponents'' objectId]"
    by blast
  moreover have "calls_of ''connectedComponents'' = [objectId]"
    using algorithms_are_single_nodes by (elim conjE)
  moreover have "mentions ''connectedComponents'' =
       nb12_cell4 @ nb12_cell5 @ tl nb12_cell6 @ nb12_cell7 @ nb12_cell8"
    using algorithms_are_single_nodes by (elim conjE)
  ultimately show ?thesis
    using a by (simp add: b nb12_cell4_def nb12_cell5_def nb12_cell6_def nb12_cell7_def
        nb12_cell8_def)
qed

lemma kinds:
  "kind_of bandNames = Names" "kind_of b1proj = Projection" "kind_of b1scale = Number"
  "kind_of b8scale = Number" "kind_of properties = Names" "kind_of cloudiness = Property"
  "kind_of date = Date" "kind_of date2 = String"
  "kind_of (Call ''bandNames'' [first]) = Names"
  by (simp_all add: bandNames_def b1proj_def b1scale_def b8scale_def properties_def
      cloudiness_def date_def date2_def image_nb03_def)

lemma received_replies:
  "set (received w h evs) \<subseteq> {r. \<exists>ev \<in> set evs. reply_of ev = Some r}"
  by (induction evs arbitrary: h) (auto split: option.splits)

lemma received_ok:
  "received ok h evs = concat (map (\<lambda>ev. case reply_of ev of None \<Rightarrow> [] | Some r \<Rightarrow> [r]) evs)"
  by (induction evs arbitrary: h) (auto simp: raises_def ok_def split: option.splits)

lemma replies_of_statements:
  "\<forall>ev \<in> set (bootstrap_stmts @ concat (concat notebooks)). \<forall>r. reply_of ev = Some r \<longrightarrow>
     r \<in> {TileUrl, Session} \<union> InfoAbout ` metadata_kinds"
  by (simp add: notebook_defs cell_defs bootstrap_stmts_def pip_install_def kinds
      metadata_kinds_def)

lemma printed_by_statements:
  "\<forall>ev \<in> set (bootstrap_stmts @ concat (concat notebooks)).
     set (printed ev) \<subseteq> InfoAbout ` metadata_kinds"
  by (simp add: notebook_defs cell_defs bootstrap_stmts_def pip_install_def kinds
      metadata_kinds_def)

lemma held_by_layers: "set (concat (map held_by_layer ls)) \<subseteq> {TileUrl}"
proof (induction ls)
  case Nil
  show ?case by simp
next
  case (Cons l ls)
  then show ?case by (cases l) auto
qed

lemma holds_start: "holds start = []"
  by (simp add: holds_def start_def)

lemma grows_notebook: "grows (notebook cells)"
  unfolding notebook_def
  by (rule grows_block) (simp add: grows_bootstrap list_all_iff grows_run)

lemma statements_of_notebook:
  assumes "nb \<in> set notebooks" and "set cells \<subseteq> set nb"
  shows "set (events (notebook cells) w s) \<subseteq> set (bootstrap_stmts @ concat (concat notebooks))"
proof -
  have "set (events (notebook cells) w s) \<subseteq> set (bootstrap_stmts @ concat cells)"
    by (rule subseq_set [OF subseq_notebook])
  also have "\<dots> \<subseteq> set (bootstrap_stmts @ concat (concat notebooks))"
    using assms by auto
  finally show ?thesis .
qed

lemma holds_notebook:
  assumes "nb \<in> set notebooks" and "set cells \<subseteq> set nb"
  shows "set (holds (snd (notebook cells w s)))
     \<subseteq> set (holds s) \<union> {TileUrl} \<union> InfoAbout ` metadata_kinds"
proof -
  have tr: "trace (snd (notebook cells w s)) = trace s @ events (notebook cells) w s"
    by (rule growsD [OF grows_notebook])
  have "set (concat (map printed (events (notebook cells) w s))) \<subseteq> InfoAbout ` metadata_kinds"
    using statements_of_notebook [OF assms, of w s] printed_by_statements by fastforce
  moreover have "set (concat (map printed (trace s))) \<subseteq> set (holds s)"
    by (simp add: holds_def)
  ultimately show ?thesis
    using held_by_layers [of "Map (snd (notebook cells w s))"]
    unfolding holds_def tr by auto
qed

text \<open>
  C2. In every execution of every notebook, whatever calls fail, every reply the client
  receives is the address of a tile layer, session data, or information about an object
  that is not a raster or a list of rasters (names, a projection, a number, a property
  value, a date, a string, a geometry); none is pixel data. After any number of cells the
  client state holds, beyond what it held before, only tile addresses and such
  information, and from the initial state it never holds pixel data.
\<close>

theorem replies_are_metadata_or_tiles:
  "(\<forall>nb \<in> set notebooks.
      PixelData \<notin> set (received w (trace s) (events (notebook nb) w s))
      \<and> set (received w (trace s) (events (notebook nb) w s))
          \<subseteq> {TileUrl, Session} \<union> InfoAbout ` metadata_kinds
      \<and> (\<forall>k. set (holds (snd (notebook (take k nb) w s)))
                \<subseteq> set (holds s) \<union> {TileUrl} \<union> InfoAbout ` metadata_kinds
              \<and> PixelData \<notin> set (holds (snd (notebook (take k nb) w start)))))
   \<and> Raster \<notin> metadata_kinds \<and> Elements \<notin> metadata_kinds"
proof -
  have r: "set (received w (trace s) (events (notebook nb) w s))
          \<subseteq> {TileUrl, Session} \<union> InfoAbout ` metadata_kinds"
    if nb: "nb \<in> set notebooks" for nb
  proof
    fix x
    assume "x \<in> set (received w (trace s) (events (notebook nb) w s))"
    then obtain ev where ev: "ev \<in> set (events (notebook nb) w s)" and x: "reply_of ev = Some x"
      using received_replies by fastforce
    have "ev \<in> set (bootstrap_stmts @ concat (concat notebooks))"
      using statements_of_notebook [OF nb subset_refl, of w s] ev by blast
    with replies_of_statements x show "x \<in> {TileUrl, Session} \<union> InfoAbout ` metadata_kinds"
      by blast
  qed
  have h: "set (holds (snd (notebook (take k nb) w s')))
       \<subseteq> set (holds s') \<union> {TileUrl} \<union> InfoAbout ` metadata_kinds"
    if nb: "nb \<in> set notebooks" for nb k s'
    by (rule holds_notebook [OF nb set_take_subset])
  have h0: "PixelData \<notin> set (holds (snd (notebook (take k nb) w start)))"
    if nb: "nb \<in> set notebooks" for nb k
    using h [OF nb, of k start] by (auto simp: holds_start)
  have p: "PixelData \<notin> set (received w (trace s) (events (notebook nb) w s))"
    if nb: "nb \<in> set notebooks" for nb
    using r [OF nb] by auto
  have "Raster \<notin> metadata_kinds \<and> Elements \<notin> metadata_kinds"
    by (simp add: metadata_kinds_def)
  with r h h0 p show ?thesis by blast
qed

theorem replies_are_metadata_or_tiles_witness:
  "nb03 \<in> set notebooks
   \<and> received ok (trace start) (events (notebook nb03) ok start) =
       [Session, TileUrl, InfoAbout Geometry, InfoAbout Names, InfoAbout Projection,
        InfoAbout Number, InfoAbout Number, InfoAbout Names, InfoAbout Property,
        InfoAbout Date, InfoAbout String]
   \<and> PixelData \<notin> set (received ok (trace start) (events (notebook nb03) ok start))
   \<and> holds (snd (notebook (take 3 nb03) ok start)) = [TileUrl, InfoAbout Names]
   \<and> PixelData \<notin> set (holds (snd (notebook (take 3 nb03) ok start)))"
proof -
  have nb: "nb03 \<in> set notebooks" by (simp add: notebooks_def)
  have a: "PixelData \<notin> set (received ok (trace start) (events (notebook nb03) ok start))"
    and b: "PixelData \<notin> set (holds (snd (notebook (take 3 nb03) ok start)))"
    using replies_are_metadata_or_tiles [of ok start] nb by blast+
  have c: "received ok (trace start) (events (notebook nb03) ok start) =
       [Session, TileUrl, InfoAbout Geometry, InfoAbout Names, InfoAbout Projection,
        InfoAbout Number, InfoAbout Number, InfoAbout Names, InfoAbout Property,
        InfoAbout Date, InfoAbout String]"
    by (simp add: received_ok events_notebook_ok nb03_def cell_defs kinds metadata_kinds_def
        start_def del: received.simps)
  have d: "holds (snd (notebook (take 3 nb03) ok start)) = [TileUrl, InfoAbout Names]"
    by (simp add: holds_def notebook_ok nb03_def cell_defs kinds metadata_kinds_def start_def)
  from nb a b c d show ?thesis by (simp only: simp_thms)
qed

section \<open>Submissions per cell and the install check\<close>

lemma remote_calls_bootstrap_ok: "remote_calls (events bootstrap_cell ok s) = 1"
  by (simp add: events_def bootstrap_ok remote_calls_def)

lemma cell_counts:
  "map (map remote_calls) notebooks =
     [[0,2,1,1,1,1,1,1,1,1,0], [0,1,1,0,7,7], [0,1,1,2], [0,2,1,1,1,1,1,0], [0,3,0]]"
  by (simp add: notebook_defs cell_defs remote_calls_def)

lemma events_run_ok: "events (run c) ok s = c"
  by (simp add: events_run executed_ok)

text \<open>
  The cell with the loop calls the remote service seven times when every call returns
  (\<^verbatim>\<open>Map.centerObject\<close> once and \<^verbatim>\<open>Map.addLayer\<close> six times), the cell of the
  cumulative-cost notebook three times, and the first cell of the notebook on image
  metadata twice: a cell is not limited to one remote call.
\<close>

theorem loop_cell_seven_calls:
  "remote_calls (events (run nb04_cell6) ok start) = 7
   \<and> \<not> remote_calls (events (run nb04_cell6) ok start) \<le> 1
   \<and> remote_calls (events (run nb13_cell3) ok start) = 3
   \<and> remote_calls (events (run nb03_cell3) ok start) = 2"
  by (simp add: events_run_ok remote_calls_def cell_defs)

text \<open>
  C1 (amended). A cell calls the remote service once for every \<^verbatim>\<open>getInfo\<close>, every
  \<^verbatim>\<open>Map.addLayer\<close> and every \<^verbatim>\<open>Map.centerObject\<close> it executes: in any world a
  cell makes at most as many remote calls as it has such statements, which is at most
  seven, and when every call returns it executes all its statements. The numbers of
  remote calls of the cells after the bootstrap cell are listed for each notebook. The
  bootstrap cell submits no expression; it calls the service once, for
  \<^verbatim>\<open>ee.Initialize()\<close>, when every call returns, and at most three times in any world.
\<close>

theorem calls_per_cell:
  "(\<forall>nb \<in> set notebooks. \<forall>c \<in> set nb.
      remote_calls (events (run c) w s) \<le> remote_calls c \<and> remote_calls c \<le> 7
      \<and> events (run c) ok s = c)
   \<and> map (map remote_calls) notebooks =
     [[0,2,1,1,1,1,1,1,1,1,0], [0,1,1,0,7,7], [0,1,1,2], [0,2,1,1,1,1,1,0], [0,3,0]]
   \<and> remote_calls (events bootstrap_cell ok s) = 1
   \<and> remote_calls (events bootstrap_cell w s) \<le> 3
   \<and> submissions (events bootstrap_cell w s) = 0"
proof -
  have "\<forall>xs \<in> set (map (map remote_calls) notebooks). \<forall>n \<in> set xs. n \<le> 7"
    by (simp add: cell_counts)
  then have seven: "\<forall>nb \<in> set notebooks. \<forall>c \<in> set nb. remote_calls c \<le> 7"
    by auto
  have le: "remote_calls (events (run c) w s) \<le> remote_calls c" for c
    by (rule subseq_remote_calls [OF subseq_run])
  show ?thesis
    using seven le
    by (simp add: events_run_ok remote_calls_bootstrap remote_calls_bootstrap_ok cell_counts)
qed

theorem calls_per_cell_witness:
  "nb04 \<in> set notebooks \<and> nb04_cell6 \<in> set nb04
   \<and> remote_calls (events (run nb04_cell6) ok start) = 7
   \<and> nb03 \<in> set notebooks \<and> nb03_cell3 \<in> set nb03
   \<and> remote_calls (events (run nb03_cell3) ok start) = 2
   \<and> print_info ''Band names: '' bandNames \<in> set nb03
   \<and> remote_calls (events (run (print_info ''Band names: '' bandNames)) ok start) = 1"
proof -
  have a: "nb04 \<in> set notebooks" and b: "nb04_cell6 \<in> set nb04"
    and c: "nb03 \<in> set notebooks" and d: "print_info ''Band names: '' bandNames \<in> set nb03"
    and e: "nb03_cell3 \<in> set nb03"
    by (simp_all add: notebooks_def nb04_def nb03_def)
  have "events (run nb04_cell6) ok start = nb04_cell6"
    using calls_per_cell [of ok start] a b by blast
  moreover have "events (run (print_info ''Band names: '' bandNames)) ok start
      = print_info ''Band names: '' bandNames"
    using calls_per_cell [of ok start] c d by blast
  moreover have "events (run nb03_cell3) ok start = nb03_cell3"
    using calls_per_cell [of ok start] c e by blast
  ultimately show ?thesis
    using a b c d e by (simp add: remote_calls_def cell_defs)
qed



section \<open>Session initialization\<close>

text \<open>
  When \<^verbatim>\<open>ee.Authenticate()\<close> raises, \<^verbatim>\<open>ee.Initialize()\<close> is not called again; when
  the first \<^verbatim>\<open>ee.Initialize()\<close> raises a \<^verbatim>\<open>KeyboardInterrupt\<close>,
  \<^verbatim>\<open>ee.Authenticate()\<close> is not called.
\<close>

theorem no_retry_when_authenticate_fails:
  "events init_session (failing [EEInitialize, EEAuthenticate] EEException) start
      = [EEInitialize, EEAuthenticate]
   \<and> events init_session (failing [EEInitialize] KeyboardInterrupt) start = [EEInitialize]"
  by (simp add: init_events failing_def)

text \<open>
  C6 (amended). \<^verbatim>\<open>ee.Authenticate()\<close> is called if and only if the first
  \<^verbatim>\<open>ee.Initialize()\<close> raises an exception of class \<^verbatim>\<open>Exception\<close>. If
  \<^verbatim>\<open>ee.Authenticate()\<close> then returns, \<^verbatim>\<open>ee.Initialize()\<close> is called exactly once
  more; if it raises, its exception leaves the cell and there is no second call.
  \<^verbatim>\<open>ee.Initialize()\<close> is called at most twice, and the block completes normally only
  if one of its calls returned.
\<close>

theorem authenticate_iff_initialize_fails:
  "(EEAuthenticate \<in> set (events init_session w s)
      \<longleftrightarrow> (\<exists>e. w (trace s) EEInitialize = Some e \<and> is_Exception e))
   \<and> (w (trace s) EEInitialize = Some e \<and> is_Exception e
        \<and> w (trace s @ [EEInitialize]) EEAuthenticate = None
      \<longrightarrow> events init_session w s = [EEInitialize, EEAuthenticate, EEInitialize])
   \<and> (w (trace s) EEInitialize = Some e \<and> is_Exception e
        \<and> w (trace s @ [EEInitialize]) EEAuthenticate = Some e'
      \<longrightarrow> events init_session w s = [EEInitialize, EEAuthenticate]
          \<and> fst (init_session w s) = Some e')
   \<and> count_list (events init_session w s) EEInitialize \<le> 2
   \<and> (fst (init_session w s) = None
      \<longrightarrow> w (trace s) EEInitialize = None
          \<or> w (trace s @ [EEInitialize, EEAuthenticate]) EEInitialize = None)"
proof -
  have called: "EEAuthenticate \<in> set (events init_session w s)
      \<longleftrightarrow> (\<exists>e. w (trace s) EEInitialize = Some e \<and> is_Exception e)"
    by (auto simp: init_events split: option.splits if_splits)
  have retried: "w (trace s) EEInitialize = Some e \<and> is_Exception e
        \<and> w (trace s @ [EEInitialize]) EEAuthenticate = None
      \<longrightarrow> events init_session w s = [EEInitialize, EEAuthenticate, EEInitialize]"
    by (simp add: init_events)
  have given_up: "w (trace s) EEInitialize = Some e \<and> is_Exception e
        \<and> w (trace s @ [EEInitialize]) EEAuthenticate = Some e'
      \<longrightarrow> events init_session w s = [EEInitialize, EEAuthenticate]
          \<and> fst (init_session w s) = Some e'"
    by (simp add: init_events init_fst)
  have twice: "count_list (events init_session w s) EEInitialize \<le> 2"
    by (simp add: init_events split: option.splits)
  have completes: "fst (init_session w s) = None
      \<longrightarrow> w (trace s) EEInitialize = None
          \<or> w (trace s @ [EEInitialize, EEAuthenticate]) EEInitialize = None"
    by (auto simp: init_fst split: option.splits if_splits)
  show ?thesis
    using called retried given_up twice completes by blast
qed

theorem authenticate_iff_initialize_fails_witness:
  "once EEInitialize EEException (trace start) EEInitialize = Some EEException
   \<and> is_Exception EEException
   \<and> once EEInitialize EEException (trace start @ [EEInitialize]) EEAuthenticate = None
   \<and> events init_session (once EEInitialize EEException) start
        = [EEInitialize, EEAuthenticate, EEInitialize]
   \<and> fst (init_session (once EEInitialize EEException) start) = None
   \<and> once EEInitialize EEException (trace start @ [EEInitialize, EEAuthenticate]) EEInitialize = None"
proof -
  let ?w = "once EEInitialize EEException"
  have a: "?w (trace start) EEInitialize = Some EEException"
    and b: "is_Exception EEException"
    and c: "?w (trace start @ [EEInitialize]) EEAuthenticate = None"
    and d: "?w (trace start @ [EEInitialize, EEAuthenticate]) EEInitialize = None"
    by (simp_all add: once_def start_def)
  have e: "events init_session ?w start = [EEInitialize, EEAuthenticate, EEInitialize]"
    using authenticate_iff_initialize_fails [of ?w start EEException] a b c by blast
  have f: "fst (init_session ?w start) = None"
    by (simp add: init_fst a c d)
  show ?thesis using a b c d e f by blast
qed

section \<open>Failure handling, state and re-attempts\<close>

lemma start_simps [simp]: "trace start = []" "Map start = []"
  by (simp_all add: start_def)










section \<open>The order of the steps\<close>

lemma subtrees_self [simp]: "e \<in> set (subtrees e)"
  by (cases e) simp_all












end
